theory Spec2Isabelle
  imports Complex_Main "HOL-Library.Multiset"
begin

section \<open>Values of the program\<close>

text \<open>
  A Python \<open>str\<close> is a sequence of Unicode code points. The column and region names of
  the script hold code points above 255, and \<open>len\<close> of a string counts code points, so a
  string is a list of code points here. \<open>ascii\<close> turns an ASCII literal into such a list.
\<close>

type_synonym pystr = "nat list"

definition ascii :: "string \<Rightarrow> pystr" where
  "ascii s = map of_char s"

text \<open>
  What \<open>resp.json()\<close> returns: Python's \<open>None\<close>, \<open>bool\<close>, \<open>int\<close>, \<open>float\<close>
  (idealised as a real: the program only passes floats on and tests them against zero),
  \<open>str\<close>, \<open>list\<close> and \<open>dict\<close> (an association list in insertion order, whose keys
  are distinct in every value the parser builds).
\<close>

datatype json =
    JNull
  | JBool bool
  | JInt int
  | JFloat real
  | JStr pystr
  | JArr "json list"
  | JObj "(pystr \<times> json) list"

text \<open>
  The exceptions the program can meet. \<open>RequestException\<close> and \<open>ValueError\<close> stand for
  these classes and all their subclasses (\<open>HTTPError\<close>, \<open>JSONDecodeError\<close>, ...) and carry
  the text \<open>str(e)\<close>; \<open>OtherException\<close> is any exception of another class raised by the
  transport.
\<close>

datatype error =
    RequestException pystr
  | ValueError pystr
  | OtherException pystr
  | AttributeError
  | TypeError
  | KeyError
  | IndexError
  | OverflowError

definition and_then :: "error + 'a \<Rightarrow> ('a \<Rightarrow> error + 'b) \<Rightarrow> error + 'b" where
  "and_then m f = (case m of Inl e \<Rightarrow> Inl e | Inr v \<Rightarrow> f v)"

subsection \<open>Python's operations on these values\<close>

text \<open>Truth value testing: \<open>None\<close>, \<open>False\<close>, zero and every empty container are falsy.\<close>

fun truthy :: "json \<Rightarrow> bool" where
  "truthy JNull = False"
| "truthy (JBool b) = b"
| "truthy (JInt i) = (i \<noteq> 0)"
| "truthy (JFloat r) = (r \<noteq> 0)"
| "truthy (JStr s) = (s \<noteq> [])"
| "truthy (JArr xs) = (xs \<noteq> [])"
| "truthy (JObj kvs) = (kvs \<noteq> [])"

text \<open>\<open>a or b\<close>\<close>

definition py_or :: "json \<Rightarrow> json \<Rightarrow> json" where
  "py_or a b = (if truthy a then a else b)"

text \<open>\<open>x.get(k, d)\<close>: only a \<open>dict\<close> has the method.\<close>

fun py_get :: "json \<Rightarrow> pystr \<Rightarrow> json \<Rightarrow> error + json" where
  "py_get (JObj kvs) k d = Inr (case map_of kvs k of None \<Rightarrow> d | Some v \<Rightarrow> v)"
| "py_get _ k d = Inl AttributeError"

text \<open>\<open>x[k]\<close> with a string key.\<close>

fun py_item :: "json \<Rightarrow> pystr \<Rightarrow> error + json" where
  "py_item (JObj kvs) k = (case map_of kvs k of None \<Rightarrow> Inl KeyError | Some v \<Rightarrow> Inr v)"
| "py_item _ k = Inl TypeError"

text \<open>
  \<open>x[i]\<close> with an index \<open>i \<ge> 0\<close>. The keys of a parsed \<open>dict\<close> are strings, so an integer
  key is never found.
\<close>

fun py_index :: "json \<Rightarrow> nat \<Rightarrow> error + json" where
  "py_index (JArr xs) i = (if i < length xs then Inr (xs ! i) else Inl IndexError)"
| "py_index (JStr s) i = (if i < length s then Inr (JStr [s ! i]) else Inl IndexError)"
| "py_index (JObj kvs) i = Inl KeyError"
| "py_index _ i = Inl TypeError"

text \<open>\<open>len(x)\<close>\<close>

fun py_len :: "json \<Rightarrow> error + nat" where
  "py_len (JArr xs) = Inr (length xs)"
| "py_len (JStr s) = Inr (length s)"
| "py_len (JObj kvs) = Inr (length kvs)"
| "py_len _ = Inl TypeError"

text \<open>\<open>for v in x\<close>: the values a loop over \<open>x\<close> visits.\<close>

fun py_iter :: "json \<Rightarrow> error + json list" where
  "py_iter (JArr xs) = Inr xs"
| "py_iter (JStr s) = Inr (map (\<lambda>c. JStr [c]) s)"
| "py_iter (JObj kvs) = Inr (map (\<lambda>kv. JStr (fst kv)) kvs)"
| "py_iter _ = Inl TypeError"

text \<open>\<open>isinstance(x, dict)\<close>\<close>

fun is_dict :: "json \<Rightarrow> bool" where
  "is_dict (JObj kvs) = True"
| "is_dict _ = False"

text \<open>\<open>str(n)\<close> of an \<open>int\<close>, as an f-string renders it.\<close>

fun str_nat :: "nat \<Rightarrow> pystr" where
  "str_nat n = (if n < 10 then [48 + n] else str_nat (n div 10) @ [48 + n mod 10])"

declare str_nat.simps [simp del]

definition str_int :: "int \<Rightarrow> pystr" where
  "str_int i = (if i < 0 then 45 # str_nat (nat (- i)) else str_nat (nat i))"

text \<open>
  \<open>str(e)\<close> of an exception. The program prints only exceptions of the classes it
  catches, which carry their text; the other cases are never printed.
\<close>

fun str_error :: "error \<Rightarrow> pystr" where
  "str_error (RequestException m) = m"
| "str_error (ValueError m) = m"
| "str_error (OtherException m) = m"
| "str_error AttributeError = ascii ''AttributeError''"
| "str_error TypeError = ascii ''TypeError''"
| "str_error KeyError = ascii ''KeyError''"
| "str_error IndexError = ascii ''IndexError''"
| "str_error OverflowError = ascii ''OverflowError''"

section \<open>The network and what the operator sees\<close>

text \<open>
  The HTTP library is outside the program. One attempt of the \<open>try\<close> block
  (\<open>s.get\<close>, \<open>raise_for_status\<close>, \<open>resp.json\<close>) either returns the parsed body or raises;
  the environment \<open>net\<close> gives that outcome for the \<open>n\<close>-th request of the run and its
  URL. The state of the run is the number of requests made so far. What the program
  does to the outside is returned as a list of events, in order.
\<close>

datatype attempt = Returns json | Raises error

type_synonym net = "nat \<Rightarrow> pystr \<Rightarrow> attempt"

datatype client = requests | Session

datatype event =
    HttpGet client pystr real
  | Sleep real
  | Print pystr

text \<open>The events of the rest of the run follow those made so far.\<close>

fun after :: "event list \<Rightarrow> 'a \<times> nat \<times> event list \<Rightarrow> 'a \<times> nat \<times> event list" where
  "after evs (res, n, evs') = (res, n, evs @ evs')"

text \<open>\<open>except (requests.exceptions.RequestException, ValueError)\<close>\<close>

fun caught :: "error \<Rightarrow> bool" where
  "caught (RequestException m) = True"
| "caught (ValueError m) = True"
| "caught _ = False"

section \<open>fetch_json_with_retry\<close>

text \<open>The line printed by the final failed attempt.\<close>

definition fail_line :: "pystr \<Rightarrow> int \<Rightarrow> error \<Rightarrow> pystr" where
  "fail_line url tries e =
     ascii ''[FAIL] '' @ url @ ascii '' after '' @ str_int tries @ ascii '' tries: '' @ str_error e"

text \<open>
  What \<open>time.sleep(backoff ** attempt)\<close> raises, if anything. CPython keeps the length
  as a signed 64-bit count of nanoseconds: a length outside that range raises
  OverflowError, and a negative length inside it raises ValueError. A float power too
  large for a float raises OverflowError as well, before the sleep; such a power is
  outside the range, so the first case covers it. Within the range, floats are idealised
  as reals.
\<close>

definition sleep_error :: "real \<Rightarrow> error option" where
  "sleep_error d =
     (if d * 10 ^ 9 < - (2 ^ 63) \<or> 2 ^ 63 \<le> d * 10 ^ 9 then Some OverflowError
      else if d < 0 then Some (ValueError (ascii ''sleep length must be non-negative''))
      else None)"

text \<open>
  The body of \<open>for attempt in range(tries)\<close>, over the attempts still to make. The
  variable \<open>last_err\<close> is written and never read, and is left out. The sleep runs inside
  the handler, so an exception it raises leaves the function.
\<close>

fun fetch_loop ::
  "net \<Rightarrow> client \<Rightarrow> pystr \<Rightarrow> int \<Rightarrow> real \<Rightarrow> real \<Rightarrow> int list \<Rightarrow> nat
     \<Rightarrow> (error + json) \<times> nat \<times> event list" where
  "fetch_loop net s url tries timeout backoff [] n = (Inr JNull, n, [])"
| "fetch_loop net s url tries timeout backoff (attempt # rest) n =
     (case net n url of
        Returns v \<Rightarrow> (Inr v, Suc n, [HttpGet s url timeout])
      | Raises e \<Rightarrow>
          if \<not> caught e then (Inl e, Suc n, [HttpGet s url timeout])
          else if attempt < tries - 1 then
            (case sleep_error (backoff ^ nat attempt) of
               Some e' \<Rightarrow> (Inl e', Suc n, [HttpGet s url timeout])
             | None \<Rightarrow>
                 after [HttpGet s url timeout, Sleep (backoff ^ nat attempt)]
                   (fetch_loop net s url tries timeout backoff rest (Suc n)))
          else
            after [HttpGet s url timeout, Print (fail_line url tries e)]
              (fetch_loop net s url tries timeout backoff rest (Suc n)))"

text \<open>\<open>range(tries)\<close>\<close>

definition range :: "int \<Rightarrow> int list" where
  "range k = map int [0..<nat k]"

definition fetch_json_with_retry ::
  "net \<Rightarrow> pystr \<Rightarrow> client option \<Rightarrow> int \<Rightarrow> real \<Rightarrow> real \<Rightarrow> nat
     \<Rightarrow> (error + json) \<times> nat \<times> event list" where
  "fetch_json_with_retry net url session tries timeout backoff n =
     (let s = (case session of None \<Rightarrow> requests | Some c \<Rightarrow> c)
      in fetch_loop net s url tries timeout backoff (range tries) n)"

text \<open>The defaults of the signature.\<close>

definition default_tries :: int where
  "default_tries = 5"

definition default_timeout :: real where
  "default_timeout = 30.0"

definition default_backoff :: real where
  "default_backoff = 1.5"

section \<open>parse_dataset\<close>

text \<open>\<open>[o["iri"] for o in ds]\<close>, over the entries the comprehension visits.\<close>

fun iri_of_each :: "json list \<Rightarrow> error + json list" where
  "iri_of_each [] = Inr []"
| "iri_of_each (o' # os) =
     (case py_item o' (ascii ''iri'') of
        Inl e \<Rightarrow> Inl e
      | Inr v \<Rightarrow> (case iri_of_each os of Inl e \<Rightarrow> Inl e | Inr vs \<Rightarrow> Inr (v # vs)))"

text \<open>\<open>for g in graph\<close>, then the final \<open>return []\<close>.\<close>

fun graph_loop :: "json list \<Rightarrow> error + json list" where
  "graph_loop [] = Inr []"
| "graph_loop (g # gs) =
     (case py_get g (ascii ''dcat:dataset'') JNull of
        Inl e \<Rightarrow> Inl e
      | Inr ds \<Rightarrow>
          if ds \<noteq> JNull then and_then (py_iter ds) iri_of_each
          else graph_loop gs)"

definition parse_dataset :: "net \<Rightarrow> pystr \<Rightarrow> nat \<Rightarrow> (error + json list) \<times> nat \<times> event list" where
  "parse_dataset net uri n =
     (case fetch_json_with_retry net uri None default_tries default_timeout default_backoff n of
        (Inl e, n', evs) \<Rightarrow> (Inl e, n', evs)
      | (Inr r, n', evs) \<Rightarrow>
          (and_then (py_get r (ascii ''@graph'') (JArr []))
             (\<lambda>graph. and_then (py_iter graph) graph_loop),
           n', evs))"

section \<open>collect_features\<close>

definition warning_line :: "pystr \<Rightarrow> pystr" where
  "warning_line uri =
     ascii ''Warning: features in '' @ uri @ ascii '' is empty/does not exist!''"

text \<open>\<open>for f in F: if isinstance(f, dict): features.append(f)\<close>\<close>

fun append_dicts :: "json list \<Rightarrow> json list \<Rightarrow> json list" where
  "append_dicts [] features = features"
| "append_dicts (f # fs) features =
     append_dicts fs (if is_dict f then features @ [f] else features)"

text \<open>
  \<open>for uri in tqdm(uris, ...)\<close>, with the features collected so far. The progress bar
  is not modelled.
\<close>

fun collect_loop ::
  "net \<Rightarrow> pystr list \<Rightarrow> json list \<Rightarrow> nat \<Rightarrow> (error + json list) \<times> nat \<times> event list" where
  "collect_loop net [] features n = (Inr features, n, [])"
| "collect_loop net (uri # rest) features n =
     (case fetch_json_with_retry net uri (Some Session) 6 30.0 1.7 n of
        (Inl e, n', evs) \<Rightarrow> (Inl e, n', evs)
      | (Inr r, n', evs) \<Rightarrow>
          if r = JNull then after evs (collect_loop net rest features n')
          else
            (case py_get r (ascii ''features'') (JArr []) of
               Inl e \<Rightarrow> (Inl e, n', evs)
             | Inr F \<Rightarrow>
                 if truthy F then
                   (case py_iter F of
                      Inl e \<Rightarrow> (Inl e, n', evs)
                    | Inr fs \<Rightarrow>
                        after evs (collect_loop net rest (append_dicts fs features) n'))
                 else
                   after (evs @ [Print (warning_line uri)])
                     (collect_loop net rest features n')))"

definition collect_features ::
  "net \<Rightarrow> pystr list \<Rightarrow> nat \<Rightarrow> (error + json list) \<times> nat \<times> event list" where
  "collect_features net uris n = collect_loop net uris [] n"

section \<open>create_table\<close>

text \<open>The fourteen lists the loop appends to.\<close>

record lists =
  ids :: "json list"
  nuts3_names :: "json list"
  nuts3_ids :: "json list"
  lau1_names :: "json list"
  lau1_ids :: "json list"
  lau2_names :: "json list"
  lau2_ids :: "json list"
  district_names :: "json list"
  streetnames :: "json list"
  propertyregistrationnumbers :: "json list"
  orientationnumbers :: "json list"
  postalcodes :: "json list"
  coord_x :: "json list"
  coord_y :: "json list"

definition empty_lists :: lists where
  "empty_lists =
     \<lparr>ids = [], nuts3_names = [], nuts3_ids = [], lau1_names = [], lau1_ids = [],
      lau2_names = [], lau2_ids = [], district_names = [], streetnames = [],
      propertyregistrationnumbers = [], orientationnumbers = [], postalcodes = [],
      coord_x = [], coord_y = []\<rparr>"

text \<open>\<open>coords[i] if len(coords) >= 2 else ""\<close>\<close>

definition coord :: "json \<Rightarrow> nat \<Rightarrow> error + json" where
  "coord coords i =
     and_then (py_len coords) (\<lambda>l. if 2 \<le> l then py_index coords i else Inr (JStr []))"

text \<open>One pass of the body of \<open>for feature in features\<close>.\<close>

definition create_table_step :: "lists \<Rightarrow> json \<Rightarrow> error + lists" where
  "create_table_step c feature =
     and_then (py_get feature (ascii ''properties'') JNull) (\<lambda>p.
     let properties = py_or p (JObj []) in
     and_then (py_get feature (ascii ''geometry'') JNull) (\<lambda>g.
     let geometry = py_or g (JObj []) in
     and_then (py_get geometry (ascii ''coordinates'') JNull) (\<lambda>cs.
     let coords = py_or cs (JArr []) in
     and_then (coord coords 0) (\<lambda>x.
     and_then (coord coords 1) (\<lambda>y.
     and_then (py_get properties (ascii ''identifier'') (JStr [])) (\<lambda>v1.
     and_then (py_get properties (ascii ''nuts3_name'') (JStr [])) (\<lambda>v2.
     and_then (py_get properties (ascii ''nuts3_id'') (JStr [])) (\<lambda>v3.
     and_then (py_get properties (ascii ''lau1_name'') (JStr [])) (\<lambda>v4.
     and_then (py_get properties (ascii ''lau1_id'') (JStr [])) (\<lambda>v5.
     and_then (py_get properties (ascii ''lau2_name'') (JStr [])) (\<lambda>v6.
     and_then (py_get properties (ascii ''lau2_id'') (JStr [])) (\<lambda>v7.
     and_then (py_get properties (ascii ''district_name'') (JStr [])) (\<lambda>v8.
     and_then (py_get properties (ascii ''streetname'') (JStr [])) (\<lambda>v9.
     and_then (py_get properties (ascii ''propertyregistrationnumber'') (JStr [])) (\<lambda>v10.
     and_then (py_get properties (ascii ''orientationnumber'') (JStr [])) (\<lambda>v11.
     and_then (py_get properties (ascii ''postalcode'') (JStr [])) (\<lambda>v12.
     Inr \<lparr>ids = ids c @ [v1],
          nuts3_names = nuts3_names c @ [v2],
          nuts3_ids = nuts3_ids c @ [v3],
          lau1_names = lau1_names c @ [v4],
          lau1_ids = lau1_ids c @ [v5],
          lau2_names = lau2_names c @ [v6],
          lau2_ids = lau2_ids c @ [v7],
          district_names = district_names c @ [v8],
          streetnames = streetnames c @ [v9],
          propertyregistrationnumbers = propertyregistrationnumbers c @ [v10],
          orientationnumbers = orientationnumbers c @ [v11],
          postalcodes = postalcodes c @ [v12],
          coord_x = coord_x c @ [x],
          coord_y = coord_y c @ [y]\<rparr>)))))))))))))))))"

fun create_table_loop :: "json list \<Rightarrow> lists \<Rightarrow> error + lists" where
  "create_table_loop [] c = Inr c"
| "create_table_loop (feature # rest) c =
     (case create_table_step c feature of
        Inl e \<Rightarrow> Inl e
      | Inr c' \<Rightarrow> create_table_loop rest c')"

text \<open>The returned \<open>dict\<close>, in insertion order.\<close>

type_synonym table = "(pystr \<times> json list) list"

definition Kraj :: pystr where
  "Kraj = ascii ''Kraj''"

definition res :: "lists \<Rightarrow> table" where
  "res c =
     [(ascii ''Identifik'' @ [0xE1] @ ascii ''tor'', ids c),
      (Kraj, nuts3_names c),
      (ascii ''ID kraja'', nuts3_ids c),
      (ascii ''Okres'', lau1_names c),
      (ascii ''ID Okresu'', lau1_ids c),
      (ascii ''Obec'', lau2_names c),
      (ascii ''ID obce'', lau2_ids c),
      ([0x10C] @ ascii ''as'' @ [0x165] @ ascii '' obce'', district_names c),
      (ascii ''Ulica'', streetnames c),
      (ascii ''S'' @ [0xFA] @ ascii ''pisn'' @ [0xE9] @ ascii '' '' @ [0x10D, 0xED] @ ascii ''slo'',
       propertyregistrationnumbers c),
      (ascii ''Orienta'' @ [0x10D] @ ascii ''n'' @ [0xE9] @ ascii '' '' @ [0x10D, 0xED] @
         ascii ''slo cel'' @ [0xE9],
       orientationnumbers c),
      (ascii ''PS'' @ [0x10C], postalcodes c),
      (ascii ''ADRBOD_X'', coord_x c),
      (ascii ''ADRBOD_Y'', coord_y c)]"

definition create_table :: "json list \<Rightarrow> error + table" where
  "create_table features = and_then (create_table_loop features empty_lists) (\<lambda>c. Inr (res c))"

section \<open>The region files\<close>

definition name_to_abb :: "(pystr \<times> pystr) list" where
  "name_to_abb =
     [(ascii ''Banskobystrick'' @ [0xFD], ascii ''BBSK''),
      (ascii ''Bratislavsk'' @ [0xFD], ascii ''BSK''),
      (ascii ''Nitriansky'', ascii ''NSK''),
      (ascii ''Ko'' @ [0x161] @ ascii ''ick'' @ [0xFD], ascii ''KSK''),
      (ascii ''Pre'' @ [0x161] @ ascii ''ovsk'' @ [0xFD], ascii ''PSK''),
      (ascii ''Tren'' @ [0x10D] @ ascii ''iansky'', ascii ''TSK''),
      (ascii ''Trnavsk'' @ [0xFD], ascii ''TTSK''),
      ([0x17D] @ ascii ''ilinsk'' @ [0xFD], ascii ''ZSK'')]"

definition dest_root :: pystr where
  "dest_root = ascii ''data/egov/''"

subsection \<open>The table library\<close>

text \<open>
  pandas is outside the program. A data frame is its column names and its rows, each
  row holding one cell per column. A written file is the frame handed to \<open>to_csv\<close>,
  under its path.
\<close>

record dataframe =
  columns :: "pystr list"
  rows :: "json list list"

type_synonym csv_write = "pystr \<times> dataframe"

text \<open>
  Modelled from the spec: \<open>pd.DataFrame(table)\<close>, which is not part of the repository,
  builds a tabular structure from the column mapping: row \<open>i\<close> holds entry \<open>i\<close> of every
  column. Columns of different lengths are refused.
\<close>

definition DataFrame :: "table \<Rightarrow> error + dataframe" where
  "DataFrame t =
     (let n = (case t of [] \<Rightarrow> 0 | c # _ \<Rightarrow> length (snd c)) in
      if list_all (\<lambda>c. length (snd c) = n) t
      then Inr \<lparr>columns = map fst t, rows = map (\<lambda>i. map (\<lambda>c. snd c ! i) t) [0..<n]\<rparr>
      else Inl (ValueError (ascii ''All arrays must be of the same length'')))"

text \<open>The position of a column, and the insertion step of the sort.\<close>

fun index_of :: "pystr list \<Rightarrow> pystr \<Rightarrow> nat option" where
  "index_of [] c = None"
| "index_of (x # xs) c = (if x = c then Some 0 else map_option Suc (index_of xs c))"

fun insert_row :: "(json \<Rightarrow> json \<Rightarrow> bool) \<Rightarrow> nat \<Rightarrow> json list \<Rightarrow> json list list \<Rightarrow> json list list" where
  "insert_row le i r [] = [r]"
| "insert_row le i r (x # xs) =
     (if le (r ! i) (x ! i) then r # x # xs else x # insert_row le i r xs)"

text \<open>
  Modelled from the spec: \<open>df.sort_values(by, kind="stable")\<close>, which is not part of the
  repository, stable-sorts all rows by the named column, ties kept in their original
  relative order. The order \<open>le\<close> that pandas puts on cells is a parameter; a column whose
  cells Python cannot compare with each other is outside the model.
\<close>

definition sort_values :: "(json \<Rightarrow> json \<Rightarrow> bool) \<Rightarrow> dataframe \<Rightarrow> pystr \<Rightarrow> error + dataframe" where
  "sort_values le df by' =
     (case index_of (columns df) by' of
        None \<Rightarrow> Inl KeyError
      | Some i \<Rightarrow> Inr (df\<lparr>rows := foldr (insert_row le i) (rows df) []\<rparr>))"

text \<open>
  Modelled from the spec: \<open>df[df[by] == value]\<close>, which is not part of the repository,
  filters the rows whose cell in the named column equals the string \<open>value\<close>.
\<close>

definition select_eq :: "dataframe \<Rightarrow> pystr \<Rightarrow> pystr \<Rightarrow> error + dataframe" where
  "select_eq df by' v =
     (case index_of (columns df) by' of
        None \<Rightarrow> Inl KeyError
      | Some i \<Rightarrow> Inr (df\<lparr>rows := filter (\<lambda>r. r ! i = JStr v) (rows df)\<rparr>))"

text \<open>Modelled from the spec: \<open>df.empty\<close>, true of a frame with no rows or no columns.\<close>

definition empty :: "dataframe \<Rightarrow> bool" where
  "empty df = (rows df = [] \<or> columns df = [])"

subsection \<open>The script\<close>

text \<open>
  Lines 149 to 157: build the frame, sort it by \<open>Kraj\<close> and save it to \<open>kraje.csv\<close>.
  The result is the sorted frame and the file written. The banners printed between
  the steps, and the warning about unmapped region names of lines 174 to 181, write no
  file and are left out.
\<close>

definition save_kraje :: "(json \<Rightarrow> json \<Rightarrow> bool) \<Rightarrow> table \<Rightarrow> error + dataframe \<times> csv_write list" where
  "save_kraje le t =
     and_then (DataFrame t) (\<lambda>df.
     and_then (sort_values le df Kraj) (\<lambda>df.
     Inr (df, [(dest_root @ ascii ''kraje.csv'', df)])))"

text \<open>
  Lines 185 to 190: \<open>for kraj, abb in name_to_abb.items()\<close>. The files written before a
  fault stay written, so they are returned beside the result.
\<close>

fun save_individual :: "dataframe \<Rightarrow> (pystr \<times> pystr) list \<Rightarrow> error option \<times> csv_write list" where
  "save_individual df [] = (None, [])"
| "save_individual df ((kraj, abb) # rest) =
     (case select_eq df Kraj kraj of
        Inl e \<Rightarrow> (Some e, [])
      | Inr df_k \<Rightarrow>
          if empty df_k then save_individual df rest
          else
            (case save_individual df rest of
               (r, ws) \<Rightarrow> (r, (dest_root @ abb @ ascii ''.csv'', df_k) # ws)))"

section \<open>The documents the specification speaks of\<close>

text \<open>
  The words of the specification's data model, as functions on values: the graph list of
  a catalog document (empty when the document has none), the dataset relation of a graph
  node (a node whose relation is null holds none), and the \<open>iri\<close> field of an entry.
\<close>

definition graph_nodes :: "(pystr \<times> json) list \<Rightarrow> json list option" where
  "graph_nodes doc =
     (case map_of doc (ascii ''@graph'') of
        None \<Rightarrow> Some []
      | Some (JArr nodes) \<Rightarrow> Some nodes
      | Some _ \<Rightarrow> None)"

definition dataset_of :: "json \<Rightarrow> json option" where
  "dataset_of g =
     (case g of
        JObj kvs \<Rightarrow>
          (case map_of kvs (ascii ''dcat:dataset'') of
             None \<Rightarrow> None
           | Some ds \<Rightarrow> if ds = JNull then None else Some ds)
      | _ \<Rightarrow> None)"

definition iri_field :: "json \<Rightarrow> json option" where
  "iri_field e = (case e of JObj kvs \<Rightarrow> map_of kvs (ascii ''iri'') | _ \<Rightarrow> None)"

text \<open>
  A dataset document and its \<open>features\<close> entry: the entry is missing or empty when the
  key is absent or bound to a falsy value; a document is well-formed when it is an
  object whose \<open>features\<close> entry, if not missing or empty, is a list. \<open>dict_entries\<close> are
  the entries of that list that are objects.
\<close>

fun is_list :: "json \<Rightarrow> bool" where
  "is_list (JArr xs) = True"
| "is_list _ = False"

definition features_entry :: "json \<Rightarrow> json option" where
  "features_entry d = (case d of JObj kvs \<Rightarrow> map_of kvs (ascii ''features'') | _ \<Rightarrow> None)"

definition no_features :: "json \<Rightarrow> bool" where
  "no_features d = (case features_entry d of None \<Rightarrow> True | Some F \<Rightarrow> \<not> truthy F)"

definition dataset_document :: "json \<Rightarrow> bool" where
  "dataset_document d =
     (is_dict d \<and> (case features_entry d of None \<Rightarrow> True | Some F \<Rightarrow> \<not> truthy F \<or> is_list F))"

definition dict_entries :: "json \<Rightarrow> json list" where
  "dict_entries d =
     (case features_entry d of Some (JArr fs) \<Rightarrow> filter is_dict fs | _ \<Rightarrow> [])"

text \<open>
  The documents that the fetches of \<open>collect_features\<close> return for a list of URIs, in
  order, when none of them raises; \<open>None\<close> stands in the list for a fetch that gave up.
\<close>

fun fetched :: "net \<Rightarrow> pystr list \<Rightarrow> nat \<Rightarrow> json list option" where
  "fetched net [] n = Some []"
| "fetched net (uri # rest) n =
     (case fetch_json_with_retry net uri (Some Session) 6 30.0 1.7 n of
        (Inl e, n', evs) \<Rightarrow> None
      | (Inr r, n', evs) \<Rightarrow> map_option ((#) r) (fetched net rest n'))"

text \<open>The sleeps among the events of a run, in order.\<close>

fun sleeps :: "event list \<Rightarrow> real list" where
  "sleeps [] = []"
| "sleeps (Sleep d # evs) = d # sleeps evs"
| "sleeps (e # evs) = sleeps evs"

text \<open>
  A feature: \<open>member x k\<close> is the value an object binds to a key. The properties mapping
  and the coordinate sequence of a feature are empty when the key is absent or bound to
  a falsy value. A feature is well-formed when it is an object whose \<open>properties\<close> and
  \<open>geometry\<close>, if present and truthy, are objects, and whose geometry's \<open>coordinates\<close>,
  if present and truthy, are a list.
\<close>

definition member :: "json \<Rightarrow> pystr \<Rightarrow> json option" where
  "member x k = (case x of JObj kvs \<Rightarrow> map_of kvs k | _ \<Rightarrow> None)"

definition properties_of :: "json \<Rightarrow> (pystr \<times> json) list" where
  "properties_of f =
     (case member f (ascii ''properties'') of Some (JObj ps) \<Rightarrow> ps | _ \<Rightarrow> [])"

definition coordinates_of :: "json \<Rightarrow> json list" where
  "coordinates_of f =
     (case member f (ascii ''geometry'') of
        None \<Rightarrow> []
      | Some g \<Rightarrow> (case member g (ascii ''coordinates'') of Some (JArr cs) \<Rightarrow> cs | _ \<Rightarrow> []))"

definition optional :: "(json \<Rightarrow> bool) \<Rightarrow> json \<Rightarrow> pystr \<Rightarrow> bool" where
  "optional P x k =
     (is_dict x \<and> (case member x k of None \<Rightarrow> True | Some v \<Rightarrow> \<not> truthy v \<or> P v))"

definition feature_shaped :: "json \<Rightarrow> bool" where
  "feature_shaped f =
     (optional is_dict f (ascii ''properties'') \<and>
      optional (\<lambda>g. optional is_list g (ascii ''coordinates'')) f (ascii ''geometry''))"

text \<open>A key that is present but bound to \<open>null\<close> or another falsy value.\<close>

definition falsy_at :: "json \<Rightarrow> pystr \<Rightarrow> bool" where
  "falsy_at x k = (case member x k of None \<Rightarrow> False | Some v \<Rightarrow> \<not> truthy v)"

text \<open>
  The cells of the row of a feature: a field of the properties mapping, the empty string
  when absent; a coordinate, the empty string when the sequence has fewer than two
  elements.
\<close>

definition property :: "json \<Rightarrow> pystr \<Rightarrow> json" where
  "property f k = (case map_of (properties_of f) k of None \<Rightarrow> JStr [] | Some v \<Rightarrow> v)"

definition coordinate :: "json \<Rightarrow> nat \<Rightarrow> json" where
  "coordinate f i = (if 2 \<le> length (coordinates_of f) then coordinates_of f ! i else JStr [])"

text \<open>Two groups of fourteen lists, joined list by list.\<close>

definition append_lists :: "lists \<Rightarrow> lists \<Rightarrow> lists" where
  "append_lists a b =
     \<lparr>ids = ids a @ ids b,
      nuts3_names = nuts3_names a @ nuts3_names b,
      nuts3_ids = nuts3_ids a @ nuts3_ids b,
      lau1_names = lau1_names a @ lau1_names b,
      lau1_ids = lau1_ids a @ lau1_ids b,
      lau2_names = lau2_names a @ lau2_names b,
      lau2_ids = lau2_ids a @ lau2_ids b,
      district_names = district_names a @ district_names b,
      streetnames = streetnames a @ streetnames b,
      propertyregistrationnumbers = propertyregistrationnumbers a @ propertyregistrationnumbers b,
      orientationnumbers = orientationnumbers a @ orientationnumbers b,
      postalcodes = postalcodes a @ postalcodes b,
      coord_x = coord_x a @ coord_x b,
      coord_y = coord_y a @ coord_y b\<rparr>"

section \<open>Example runs\<close>

text \<open>An endpoint that answers every request with an error status.\<close>

definition down :: net where
  "down n u = Raises (RequestException (ascii ''500 Server Error''))"

text \<open>
  A catalog whose second graph node holds the dataset relation and whose third holds
  another one; a catalog with no dataset relation; a catalog with an entry that has no
  \<open>iri\<close>.
\<close>

definition catalog :: "(pystr \<times> json) list" where
  "catalog =
     [(ascii ''@graph'',
       JArr [JObj [(ascii ''@id'', JStr (ascii ''root''))],
             JObj [(ascii ''dcat:dataset'',
                    JArr [JObj [(ascii ''iri'', JStr (ascii ''http://x/1''))],
                          JObj [(ascii ''iri'', JStr (ascii ''http://x/2''))]])],
             JObj [(ascii ''dcat:dataset'',
                    JArr [JObj [(ascii ''iri'', JStr (ascii ''http://y/1''))]])]])]"

definition bare_catalog :: "(pystr \<times> json) list" where
  "bare_catalog = [(ascii ''@graph'', JArr [JObj [(ascii ''@id'', JStr (ascii ''root''))]])]"

definition broken_catalog :: "(pystr \<times> json) list" where
  "broken_catalog =
     [(ascii ''@graph'',
       JArr [JObj [(ascii ''dcat:dataset'',
                    JArr [JObj [(ascii ''iri'', JStr (ascii ''http://x/1''))],
                          JObj [(ascii ''url'', JStr (ascii ''http://x/2''))]])]])]"

text \<open>
  Four datasetendpoints: one with two objects and a number among its features, one
  that is down, one with an empty feature list, one with a single object.
\<close>

definition datasets :: net where
  "datasets n u =
     (if u = ascii ''http://x/1'' then
        Returns (JObj [(ascii ''features'',
                        JArr [JObj [(ascii ''id'', JInt 1)], JInt 5, JObj [(ascii ''id'', JInt 2)]])])
      else if u = ascii ''http://x/2'' then Raises (RequestException (ascii ''500 Server Error''))
      else if u = ascii ''http://x/3'' then Returns (JObj [(ascii ''features'', JArr [])])
      else Returns (JObj [(ascii ''features'', JArr [JObj [(ascii ''id'', JInt 3)]])]))"

text \<open>
  Three features: the address of the specification's scenario, a feature with nothing in
  it, and a feature whose \<open>properties\<close>, \<open>geometry\<close> and \<open>coordinates\<close> are present but
  null or empty.
\<close>

definition address :: json where
  "address =
     JObj [(ascii ''properties'',
            JObj [(ascii ''nuts3_name'', JStr (ascii ''Bratislavsk'' @ [0xFD])),
                  (ascii ''identifier'', JStr (ascii ''A1''))]),
           (ascii ''geometry'', JObj [(ascii ''coordinates'', JArr [JFloat 17.1, JFloat 48.1])])]"

definition bare_feature :: json where
  "bare_feature = JObj []"

definition null_feature :: json where
  "null_feature =
     JObj [(ascii ''properties'', JNull),
           (ascii ''geometry'', JObj [(ascii ''coordinates'', JArr [])])]"

text \<open>A feature whose \<open>properties\<close> are null and whose \<open>geometry\<close> is a number.\<close>

definition odd_feature :: json where
  "odd_feature = JObj [(ascii ''properties'', JNull), (ascii ''geometry'', JInt 5)]"

text \<open>An order on cells that compares strings code point by code point.\<close>

fun str_le :: "pystr \<Rightarrow> pystr \<Rightarrow> bool" where
  "str_le [] ys = True"
| "str_le (x # xs) [] = False"
| "str_le (x # xs) (y # ys) = (x < y \<or> (x = y \<and> str_le xs ys))"

fun cell_le :: "json \<Rightarrow> json \<Rightarrow> bool" where
  "cell_le (JStr a) (JStr b) = str_le a b"
| "cell_le a b = True"

text \<open>The table of the scenario's address followed by the empty feature.\<close>

definition two_rows :: table where
  "two_rows =
     res \<lparr>ids = [JStr (ascii ''A1''), JStr []],
          nuts3_names = [JStr (ascii ''Bratislavsk'' @ [0xFD]), JStr []],
          nuts3_ids = [JStr [], JStr []],
          lau1_names = [JStr [], JStr []],
          lau1_ids = [JStr [], JStr []],
          lau2_names = [JStr [], JStr []],
          lau2_ids = [JStr [], JStr []],
          district_names = [JStr [], JStr []],
          streetnames = [JStr [], JStr []],
          propertyregistrationnumbers = [JStr [], JStr []],
          orientationnumbers = [JStr [], JStr []],
          postalcodes = [JStr [], JStr []],
          coord_x = [JFloat 17.1, JStr []],
          coord_y = [JFloat 48.1, JStr []]\<rparr>"

section \<open>The retrying fetcher gives up after \<open>tries\<close> attempts\<close>

text \<open>
  When the attempts \<open>k, ..., m - 1\<close> of a run of \<open>m\<close> tries all raise a caught exception,
  the loop asks once per attempt, sleeps after every attempt but the last, prints the
  failure line on the last and falls through to \<open>return None\<close>.
\<close>

lemma sleep_error_None:
  assumes "0 \<le> d" and "d * 10 ^ 9 < 2 ^ 63"
  shows "sleep_error d = None"
proof -
  from assms(1) have "0 \<le> d * 10 ^ 9" by simp
  then have "\<not> d * 10 ^ 9 < - (2 ^ 63)" by simp
  with assms show ?thesis by (simp add: sleep_error_def not_le)
qed

lemma fetch_loop_all_fail:
  assumes fails: "\<forall>i<m. net (b + i) url = Raises (errs i) \<and> caught (errs i)"
    and waits: "\<forall>i<m - 1. sleep_error (backoff ^ i) = None"
  shows "k < m \<Longrightarrow>
     fetch_loop net s url (int m) timeout backoff (map int [k..<m]) (b + k) =
       (Inr JNull, b + m,
        concat (map (\<lambda>i. [HttpGet s url timeout, Sleep (backoff ^ i)]) [k..<m - 1]) @
        [HttpGet s url timeout, Print (fail_line url (int m) (errs (m - 1)))])"
proof (induction "m - k" arbitrary: k)
  case 0
  then show ?case by simp
next
  case (Suc d)
  from Suc.prems fails have net_k: "net (b + k) url = Raises (errs k)" and c: "caught (errs k)"
    by auto
  have split: "[k..<m] = k # [Suc k..<m]"
    using Suc.prems by (simp add: upt_conv_Cons)
  show ?case
  proof (cases "Suc k < m")
    case True
    then have d: "d = m - Suc k" using Suc.hyps(2) by simp
    have ih: "fetch_loop net s url (int m) timeout backoff (map int [Suc k..<m]) (Suc (b + k)) =
       (Inr JNull, b + m,
        concat (map (\<lambda>i. [HttpGet s url timeout, Sleep (backoff ^ i)]) [Suc k..<m - 1]) @
        [HttpGet s url timeout, Print (fail_line url (int m) (errs (m - 1)))])"
      using Suc.hyps(1) [OF d True] by simp
    have lt: "int k < int m - 1" using True by simp
    have split2: "[k..<m - 1] = k # [Suc k..<m - 1]"
      using True by (simp add: upt_conv_Cons)
    have pow: "sleep_error (backoff ^ k) = None"
      using waits True by simp
    show ?thesis
      by (simp only: split list.map fetch_loop.simps net_k attempt.case c if_True ih
          prod.case lt split2 concat.simps nat_int append_Cons append_Nil pow if_False
          not_True_eq_False after.simps option.case)
  next
    case False
    then have m: "m = Suc k" using Suc.prems by simp
    show ?thesis
      using net_k c by (simp add: m)
  qed
qed




section \<open>The catalog resolver\<close>

lemma ascii_eq_iff [simp]: "ascii a = ascii b \<longleftrightarrow> a = b"
  unfolding ascii_def by (simp add: inj_on_def)

lemmas fetch_eval =
  fetch_json_with_retry_def range_def default_tries_def default_timeout_def
  default_backoff_def upt_conv_Cons sleep_error_def power_divide

lemma py_item_iri:
  "py_item e (ascii ''iri'') =
     (case iri_field e of
        Some v \<Rightarrow> Inr v
      | None \<Rightarrow> Inl (if is_dict e then KeyError else TypeError))"
  by (cases e) (simp_all add: iri_field_def split: option.splits)

lemma iri_of_each_all:
  "map iri_field entries = map Some iris \<Longrightarrow> iri_of_each entries = Inr iris"
proof (induction entries arbitrary: iris)
  case Nil
  then show ?case by simp
next
  case (Cons e es)
  then obtain v vs where iris: "iris = v # vs" and v: "iri_field e = Some v"
    and vs: "map iri_field es = map Some vs"
    by (cases iris) auto
  from Cons.IH [OF vs] v show ?case
    by (simp add: iris py_item_iri)
qed

lemma iri_of_each_bad:
  "\<exists>e\<in>set entries. iri_field e = None \<Longrightarrow>
     iri_of_each entries = Inl KeyError \<or> iri_of_each entries = Inl TypeError"
proof (induction entries)
  case Nil
  then show ?case by simp
next
  case (Cons e es)
  show ?case
  proof (cases "iri_field e")
    case None
    then show ?thesis by (simp add: py_item_iri)
  next
    case (Some v)
    with Cons.prems have "\<exists>e\<in>set es. iri_field e = None" by auto
    from Cons.IH [OF this] Some show ?thesis
      by (auto simp: py_item_iri)
  qed
qed

lemma py_get_dataset:
  "is_dict g \<Longrightarrow>
     py_get g (ascii ''dcat:dataset'') JNull =
       Inr (case dataset_of g of None \<Rightarrow> JNull | Some ds \<Rightarrow> ds)"
  by (cases g) (simp_all add: dataset_of_def split: option.splits)

lemma dataset_of_is_dict: "dataset_of g = Some ds \<Longrightarrow> is_dict g \<and> ds \<noteq> JNull"
  by (cases g) (auto simp: dataset_of_def split: option.splits if_splits)

text \<open>The loop passes over nodes that hold no dataset relation.\<close>

lemma graph_loop_skip:
  "\<forall>p\<in>set pre. is_dict p \<and> dataset_of p = None \<Longrightarrow> graph_loop (pre @ rest) = graph_loop rest"
  by (induction pre) (simp_all add: py_get_dataset)

text \<open>It returns from the first node that holds one, whatever follows.\<close>

lemma graph_loop_first:
  assumes "\<forall>p\<in>set pre. is_dict p \<and> dataset_of p = None" and "dataset_of g = Some ds"
  shows "graph_loop (pre @ g # post) = and_then (py_iter ds) iri_of_each"
  using dataset_of_is_dict [OF assms(2)] assms(2)
  by (simp add: graph_loop_skip [OF assms(1)] py_get_dataset)

lemma parse_dataset_fetched:
  assumes "fetch_json_with_retry net uri None default_tries default_timeout default_backoff n =
     (Inr (JObj doc), n', evs)"
    and "graph_nodes doc = Some nodes"
  shows "parse_dataset net uri n = (graph_loop nodes, n', evs)"
  using assms
  by (auto simp: parse_dataset_def graph_nodes_def and_then_def split: option.splits json.splits)

text \<open>
  C5. If the fetch of the root catalog returns \<open>None\<close>, \<open>parse_dataset\<close> raises
  AttributeError at \<open>r.get\<close>: the run fails and does not go on with an empty catalog.
\<close>

theorem parse_dataset_null:
  assumes "fetch_json_with_retry net uri None default_tries default_timeout default_backoff n =
     (Inr JNull, n', evs)"
  shows "parse_dataset net uri n = (Inl AttributeError, n', evs)"
  using assms by (simp add: parse_dataset_def and_then_def)

theorem parse_dataset_null_witness:
  "parse_dataset down (ascii ''http://x'') 0 =
     (Inl AttributeError, 5,
      [HttpGet requests (ascii ''http://x'') 30, Sleep 1,
       HttpGet requests (ascii ''http://x'') 30, Sleep (3 / 2),
       HttpGet requests (ascii ''http://x'') 30, Sleep (9 / 4),
       HttpGet requests (ascii ''http://x'') 30, Sleep (27 / 8),
       HttpGet requests (ascii ''http://x'') 30,
       Print (fail_line (ascii ''http://x'') 5 (RequestException (ascii ''500 Server Error'')))])"
  by (rule parse_dataset_null) (simp add: fetch_eval down_def)

text \<open>
  C6. For a fetched catalog document (an object whose graph, when present, is a list):
  when the nodes before the first one that holds a dataset relation are objects, and that
  relation is a list of entries that each carry an \<open>iri\<close>, \<open>parse_dataset\<close> returns those
  \<open>iri\<close> values in order, whatever the later nodes \<open>post\<close> hold; when every node is an
  object without a dataset relation, it returns the empty list.
\<close>

theorem parse_dataset_first_node:
  assumes "fetch_json_with_retry net uri None default_tries default_timeout default_backoff n =
     (Inr (JObj doc), n', evs)"
  shows "(graph_nodes doc = Some (pre @ g # post) \<and>
          (\<forall>p\<in>set pre. is_dict p \<and> dataset_of p = None) \<and>
          dataset_of g = Some (JArr entries) \<and>
          map iri_field entries = map Some iris
            \<longrightarrow> parse_dataset net uri n = (Inr iris, n', evs)) \<and>
         (graph_nodes doc = Some nodes \<and> (\<forall>p\<in>set nodes. is_dict p \<and> dataset_of p = None)
            \<longrightarrow> parse_dataset net uri n = (Inr [], n', evs))"
proof (intro conjI impI)
  assume a: "graph_nodes doc = Some (pre @ g # post) \<and>
          (\<forall>p\<in>set pre. is_dict p \<and> dataset_of p = None) \<and>
          dataset_of g = Some (JArr entries) \<and>
          map iri_field entries = map Some iris"
  then have "graph_loop (pre @ g # post) = Inr iris"
    by (simp add: graph_loop_first [of pre g "JArr entries"] and_then_def iri_of_each_all)
  with a show "parse_dataset net uri n = (Inr iris, n', evs)"
    by (simp add: parse_dataset_fetched [OF assms])
next
  assume a: "graph_nodes doc = Some nodes \<and> (\<forall>p\<in>set nodes. is_dict p \<and> dataset_of p = None)"
  then have "graph_loop (nodes @ []) = graph_loop []"
    by (intro graph_loop_skip) simp
  with a show "parse_dataset net uri n = (Inr [], n', evs)"
    by (simp add: parse_dataset_fetched [OF assms])
qed

theorem parse_dataset_first_node_witness:
  "parse_dataset (\<lambda>n u. Returns (JObj catalog)) (ascii ''http://x'') 0 =
     (Inr [JStr (ascii ''http://x/1''), JStr (ascii ''http://x/2'')], 1,
      [HttpGet requests (ascii ''http://x'') 30]) \<and>
   parse_dataset (\<lambda>n u. Returns (JObj bare_catalog)) (ascii ''http://x'') 0 =
     (Inr [], 1, [HttpGet requests (ascii ''http://x'') 30])"
  using parse_dataset_first_node [of "\<lambda>n u. Returns (JObj catalog)" "ascii ''http://x''" 0
      catalog 1 "[HttpGet requests (ascii ''http://x'') 30]"
      "[JObj [(ascii ''@id'', JStr (ascii ''root''))]]"
      "JObj [(ascii ''dcat:dataset'',
                    JArr [JObj [(ascii ''iri'', JStr (ascii ''http://x/1''))],
                          JObj [(ascii ''iri'', JStr (ascii ''http://x/2''))]])]"
      "[JObj [(ascii ''dcat:dataset'',
                    JArr [JObj [(ascii ''iri'', JStr (ascii ''http://y/1''))]])]]"
      "[JObj [(ascii ''iri'', JStr (ascii ''http://x/1''))],
        JObj [(ascii ''iri'', JStr (ascii ''http://x/2''))]]"
      "[JStr (ascii ''http://x/1''), JStr (ascii ''http://x/2'')]"]
    parse_dataset_first_node [of "\<lambda>n u. Returns (JObj bare_catalog)" "ascii ''http://x''" 0
      bare_catalog 1 "[HttpGet requests (ascii ''http://x'') 30]" _ _ _ _ _
      "[JObj [(ascii ''@id'', JStr (ascii ''root''))]]"]
  by (simp add: fetch_eval catalog_def bare_catalog_def graph_nodes_def dataset_of_def
      iri_field_def)

text \<open>
  C9. For a fetched catalog document whose first dataset relation is a list holding an
  entry without an \<open>iri\<close> field (an object lacking the key, or a value that is not an
  object), \<open>parse_dataset\<close> raises KeyError or TypeError: the entry is neither skipped nor
  given a default.
\<close>

theorem parse_dataset_bad_entry:
  assumes "fetch_json_with_retry net uri None default_tries default_timeout default_backoff n =
     (Inr (JObj doc), n', evs)"
    and "graph_nodes doc = Some (pre @ g # post)"
    and "\<forall>p\<in>set pre. is_dict p \<and> dataset_of p = None"
    and "dataset_of g = Some (JArr entries)"
    and "\<exists>e\<in>set entries. iri_field e = None"
  shows "parse_dataset net uri n = (Inl KeyError, n', evs) \<or>
         parse_dataset net uri n = (Inl TypeError, n', evs)"
proof -
  have "graph_loop (pre @ g # post) = iri_of_each entries"
    by (simp add: graph_loop_first [OF assms(3,4)] and_then_def)
  with iri_of_each_bad [OF assms(5)] show ?thesis
    by (auto simp: parse_dataset_fetched [OF assms(1,2)])
qed

theorem parse_dataset_bad_entry_witness:
  "parse_dataset (\<lambda>n u. Returns (JObj broken_catalog)) (ascii ''http://x'') 0 =
     (Inl KeyError, 1, [HttpGet requests (ascii ''http://x'') 30]) \<or>
   parse_dataset (\<lambda>n u. Returns (JObj broken_catalog)) (ascii ''http://x'') 0 =
     (Inl TypeError, 1, [HttpGet requests (ascii ''http://x'') 30])"
  by (rule parse_dataset_bad_entry [where doc = broken_catalog and pre = "[]" and post = "[]"
      and g = "JObj [(ascii ''dcat:dataset'',
                    JArr [JObj [(ascii ''iri'', JStr (ascii ''http://x/1''))],
                          JObj [(ascii ''url'', JStr (ascii ''http://x/2''))]])]"
      and entries = "[JObj [(ascii ''iri'', JStr (ascii ''http://x/1''))],
                          JObj [(ascii ''url'', JStr (ascii ''http://x/2''))]]"])
    (simp_all add: fetch_eval broken_catalog_def graph_nodes_def dataset_of_def iri_field_def)

section \<open>The two retry policies\<close>

lemma sleeps_append: "sleeps (xs @ ys) = sleeps xs @ sleeps ys"
  by (induction xs rule: sleeps.induct) simp_all

lemma sleeps_retries:
  "sleeps (concat (map (\<lambda>i. [HttpGet s url timeout, Sleep (backoff ^ i)]) ks)) =
     map (\<lambda>i. backoff ^ i) ks"
  by (induction ks) simp_all

lemma fst_after: "fst (after evs x) = fst x"
  by (cases x) simp

lemma state_after: "fst (snd (after evs x)) = fst (snd x)"
  by (cases x) simp

lemma events_after: "snd (snd (after evs x)) = evs @ snd (snd x)"
  by (cases x) simp

text \<open>The waits of both policies are lengths the sleep accepts.\<close>

lemma short_waits:
  assumes "1 \<le> b" and "b ^ 4 * 10 ^ 9 < 2 ^ 63" and "i < 5"
  shows "sleep_error (b ^ i) = None"
proof -
  from assms(1,3) have "b ^ i \<le> b ^ 4"
    by (intro power_increasing) simp_all
  then have "b ^ i * 10 ^ 9 \<le> b ^ 4 * 10 ^ 9" by simp
  with assms(2) have "b ^ i * 10 ^ 9 < 2 ^ 63" by simp
  moreover from assms(1) have "0 \<le> b ^ i" by simp
  ultimately show ?thesis by (simp add: sleep_error_None)
qed

lemma fetch_all_fail:
  assumes "\<forall>i u. \<exists>e. net i u = Raises e \<and> caught e" and "1 \<le> tries"
    and "\<forall>i<nat tries - 1. sleep_error (backoff ^ i) = None"
  shows "\<exists>evs. fetch_json_with_retry net url session tries timeout backoff n =
           (Inr JNull, n + nat tries, evs) \<and>
         sleeps evs = map (\<lambda>k. backoff ^ k) [0..<nat tries - 1]"
proof -
  define errs where "errs i = (case net (n + i) url of Raises e \<Rightarrow> e | Returns v \<Rightarrow> KeyError)" for i
  have fails: "\<forall>i<nat tries. net (n + i) url = Raises (errs i) \<and> caught (errs i)"
  proof (intro allI impI)
    fix i
    from assms(1) obtain e where "net (n + i) url = Raises e" and "caught e" by blast
    then show "net (n + i) url = Raises (errs i) \<and> caught (errs i)"
      by (simp add: errs_def)
  qed
  have pos: "0 < nat tries" and eq: "int (nat tries) = tries"
    using assms(2) by simp_all
  show ?thesis
    using fetch_loop_all_fail [where m = "nat tries" and net = net and b = n and url = url
        and errs = errs and k = 0 and timeout = timeout and backoff = backoff
        and s = "case session of None \<Rightarrow> requests | Some c \<Rightarrow> c"] fails pos assms(3)
    by (simp add: fetch_json_with_retry_def range_def eq sleeps_append sleeps_retries)
qed

lemma collect_loop_all_fail:
  assumes "\<forall>i u. \<exists>e. net i u = Raises e \<and> caught e"
  shows "fst (collect_loop net uris features n) = Inr features \<and>
         fst (snd (collect_loop net uris features n)) = n + 6 * length uris \<and>
         sleeps (snd (snd (collect_loop net uris features n))) =
           concat (map (\<lambda>u. map (\<lambda>k. (17 / 10) ^ k) [0..<5]) uris)"
proof (induction uris arbitrary: n)
  case Nil
  show ?case by simp
next
  case (Cons uri rest)
  have "sleep_error ((17 / 10) ^ i) = None" if "i < 5" for i
    using that by (intro short_waits) (simp_all add: power_divide)
  then have "\<forall>i<nat 6 - 1. sleep_error ((17 / 10) ^ i) = None"
    by simp
  from fetch_all_fail [OF assms _ this, of uri "Some Session" 30 n]
  obtain evs where f: "fetch_json_with_retry net uri (Some Session) 6 30 (17 / 10) n =
      (Inr JNull, n + 6, evs)" and s: "sleeps evs = map (\<lambda>k. (17 / 10) ^ k) [0..<5]"
    by auto
  from Cons [of "n + 6"] show ?case
    by (simp add: f s fst_after state_after events_after sleeps_append del: upt_Suc)
qed

text \<open>
  C8, as amended. When every request fails, the fetch of the catalog root makes
  \<open>default_tries\<close> requests and sleeps the powers of \<open>default_backoff\<close> between them, while
  the fetch of each dataset makes 6 requests and sleeps the powers of 1.7: the
  per-dataset policy has more tries and a larger growth factor than the defaults, so its
  waits grow faster.
\<close>

theorem fetch_policies:
  assumes "\<forall>i u. \<exists>e. net i u = Raises e \<and> caught e"
  shows "fst (snd (parse_dataset net uri n)) = n + nat default_tries \<and>
         sleeps (snd (snd (parse_dataset net uri n))) =
           map (\<lambda>k. default_backoff ^ k) [0..<nat default_tries - 1] \<and>
         fst (snd (collect_features net uris n)) = n + 6 * length uris \<and>
         sleeps (snd (snd (collect_features net uris n))) =
           concat (map (\<lambda>u. map (\<lambda>k. (17 / 10) ^ k) [0..<5]) uris) \<and>
         default_tries < 6 \<and> default_backoff < 17 / 10"
proof -
  have "sleep_error ((3 / 2) ^ i) = None" if "i < 4" for i
    using that by (intro short_waits) (simp_all add: power_divide)
  then have "\<forall>i<nat default_tries - 1. sleep_error (default_backoff ^ i) = None"
    by (simp add: default_tries_def default_backoff_def)
  from fetch_all_fail [OF assms _ this, of uri None default_timeout n]
  obtain evs where "fetch_json_with_retry net uri None default_tries default_timeout
      default_backoff n = (Inr JNull, n + nat default_tries, evs)"
    and "sleeps evs = map (\<lambda>k. default_backoff ^ k) [0..<nat default_tries - 1]"
    by (auto simp: default_tries_def default_backoff_def)
  then have "fst (snd (parse_dataset net uri n)) = n + nat default_tries \<and>
         sleeps (snd (snd (parse_dataset net uri n))) =
           map (\<lambda>k. default_backoff ^ k) [0..<nat default_tries - 1]"
    by (simp add: parse_dataset_def)
  with collect_loop_all_fail [OF assms, of uris "[]" n] show ?thesis
    by (simp add: collect_features_def default_tries_def default_backoff_def)
qed

theorem fetch_policies_witness:
  "fst (snd (parse_dataset down (ascii ''http://x'') 0)) = 5 \<and>
   sleeps (snd (snd (parse_dataset down (ascii ''http://x'') 0))) = [1, 3 / 2, 9 / 4, 27 / 8] \<and>
   fst (snd (collect_features down [ascii ''http://x/1''] 0)) = 6 \<and>
   sleeps (snd (snd (collect_features down [ascii ''http://x/1''] 0))) =
     [1, 17 / 10, 289 / 100, 4913 / 1000, 83521 / 10000]"
  using fetch_policies [of down "ascii ''http://x''" 0 "[ascii ''http://x/1'']"]
  by (simp add: down_def default_tries_def default_backoff_def upt_conv_Cons power_divide)

text \<open>
  C8 as stated fails: with every endpoint down, the second wait of a dataset fetch (its
  growth factor, 1.7) is not below the second wait of the root fetch (1.5).
\<close>

theorem slower_growth_counterexample:
  "\<not> sleeps (snd (snd (collect_features down [ascii ''http://x/1''] 0))) ! 1 <
     sleeps (snd (snd (parse_dataset down (ascii ''http://x'') 0))) ! 1"
  by (simp add: collect_features_def parse_dataset_def fetch_eval down_def)

section \<open>The feature collector\<close>

lemma append_dicts_filter: "append_dicts fs features = features @ filter is_dict fs"
  by (induction fs arbitrary: features) simp_all

text \<open>What one well-formed document makes the loop body do.\<close>

lemma py_get_features:
  "dataset_document d \<Longrightarrow> \<exists>F. py_get d (ascii ''features'') (JArr []) = Inr F \<and>
     (truthy F \<longleftrightarrow> \<not> no_features d) \<and>
     (truthy F \<longrightarrow> py_iter F = Inr (case F of JArr fs \<Rightarrow> fs | _ \<Rightarrow> []) \<and> filter is_dict (case F of JArr fs \<Rightarrow> fs | _ \<Rightarrow> []) = dict_entries d)"
proof (cases d)
  case (JObj kvs)
  assume dd: "dataset_document d"
  show ?thesis
  proof (cases "map_of kvs (ascii ''features'')")
    case None
    then show ?thesis
      by (simp add: JObj no_features_def features_entry_def)
  next
    case (Some F)
    with dd JObj have "\<not> truthy F \<or> is_list F"
      by (simp add: dataset_document_def features_entry_def)
    with Some show ?thesis
      by (cases F) (simp_all add: JObj no_features_def features_entry_def dict_entries_def)
  qed
qed (simp_all add: dataset_document_def)

lemma dict_entries_no_features: "no_features d \<Longrightarrow> dict_entries d = []"
  by (auto simp: no_features_def dict_entries_def split: option.splits json.splits)

lemma collect_loop_documents:
  assumes "fetched net uris n = Some docs"
    and "\<forall>d\<in>set docs. d = JNull \<or> dataset_document d"
  shows "fst (collect_loop net uris features n) = Inr (features @ concat (map dict_entries docs)) \<and>
         (\<forall>i<length uris. docs ! i \<noteq> JNull \<and> no_features (docs ! i) \<longrightarrow>
            Print (warning_line (uris ! i)) \<in> set (snd (snd (collect_loop net uris features n))))"
  using assms
proof (induction uris arbitrary: n docs features)
  case Nil
  then show ?case by simp
next
  case (Cons uri rest)
  from Cons.prems(1) obtain r n' evs ds where
    f: "fetch_json_with_retry net uri (Some Session) 6 30 (17 / 10) n = (Inr r, n', evs)"
    and ds: "fetched net rest n' = Some ds" and docs: "docs = r # ds"
    by (auto split: prod.splits sum.splits)
  from Cons.prems(2) docs have r: "r = JNull \<or> dataset_document r"
    and ok: "\<forall>d\<in>set ds. d = JNull \<or> dataset_document d"
    by simp_all
  note ih = Cons.IH [OF ds ok]
  show ?case
  proof (cases "r = JNull")
    case True
    have "dict_entries JNull = []" by (simp add: dict_entries_def features_entry_def)
    with ih [of features] True show ?thesis
      by (auto simp: f docs fst_after events_after nth_Cons split: nat.splits)
  next
    case False
    with r have dd: "dataset_document r" by simp
    from py_get_features [OF dd] obtain F where
      g: "py_get r (ascii ''features'') (JArr []) = Inr F"
      and t: "truthy F \<longleftrightarrow> \<not> no_features r"
      and it: "truthy F \<longrightarrow> py_iter F = Inr (case F of JArr fs \<Rightarrow> fs | _ \<Rightarrow> []) \<and>
          filter is_dict (case F of JArr fs \<Rightarrow> fs | _ \<Rightarrow> []) = dict_entries r"
      by blast
    show ?thesis
    proof (cases "truthy F")
      case True
      with ih [of "features @ dict_entries r"] it t False show ?thesis
        by (auto simp: f g docs fst_after events_after nth_Cons append_dicts_filter
            split: nat.splits)
    next
      case nt: False
      with t have nf: "no_features r" by simp
      with ih [of features] nt False show ?thesis
        by (auto simp: f g docs fst_after events_after nth_Cons dict_entries_no_features
            split: nat.splits)
    qed
  qed
qed

text \<open>
  C7. For every list of URIs whose fetches all return (a document or \<open>None\<close>) and whose
  documents are well-formed, \<open>collect_features\<close> returns the concatenation, in the order
  of the URIs, of the entries of each document's feature list that are objects; a fetch
  that gave up contributes nothing and does not stop the run; a document whose feature
  list is missing or empty contributes nothing and the warning naming its URI is printed.
\<close>

theorem collect_features_concat:
  assumes "fetched net uris n = Some docs"
    and "\<forall>d\<in>set docs. d = JNull \<or> dataset_document d"
  shows "fst (collect_features net uris n) = Inr (concat (map dict_entries docs)) \<and>
         (\<forall>i<length uris. docs ! i \<noteq> JNull \<and> no_features (docs ! i) \<longrightarrow>
            Print (warning_line (uris ! i)) \<in> set (snd (snd (collect_features net uris n))))"
  using collect_loop_documents [OF assms, of "[]"] by (simp add: collect_features_def)


theorem collect_features_concat_witness:
  "fst (collect_features datasets
          [ascii ''http://x/1'', ascii ''http://x/2'', ascii ''http://x/3'', ascii ''http://x/4''] 0) =
     Inr [JObj [(ascii ''id'', JInt 1)], JObj [(ascii ''id'', JInt 2)], JObj [(ascii ''id'', JInt 3)]] \<and>
   Print (warning_line (ascii ''http://x/3'')) \<in>
     set (snd (snd (collect_features datasets
          [ascii ''http://x/1'', ascii ''http://x/2'', ascii ''http://x/3'', ascii ''http://x/4''] 0)))"
proof -
  let ?uris = "[ascii ''http://x/1'', ascii ''http://x/2'', ascii ''http://x/3'', ascii ''http://x/4'']"
  let ?docs = "[JObj [(ascii ''features'',
                        JArr [JObj [(ascii ''id'', JInt 1)], JInt 5, JObj [(ascii ''id'', JInt 2)]])],
                JNull,
                JObj [(ascii ''features'', JArr [])],
                JObj [(ascii ''features'', JArr [JObj [(ascii ''id'', JInt 3)]])]]"
  have f: "fetched datasets ?uris 0 = Some ?docs"
    by (simp add: fetch_eval datasets_def)
  have ok: "\<forall>d\<in>set ?docs. d = JNull \<or> dataset_document d"
    by (simp add: dataset_document_def features_entry_def)
  from collect_features_concat [OF f ok]
  have res: "fst (collect_features datasets ?uris 0) = Inr (concat (map dict_entries ?docs))"
    and warn: "\<forall>i<length ?uris. ?docs ! i \<noteq> JNull \<and> no_features (?docs ! i) \<longrightarrow>
        Print (warning_line (?uris ! i)) \<in> set (snd (snd (collect_features datasets ?uris 0)))"
    by blast+
  from warn [rule_format, of 2]
  have "Print (warning_line (ascii ''http://x/3'')) \<in>
      set (snd (snd (collect_features datasets ?uris 0)))"
    by (simp add: no_features_def features_entry_def)
  with res show ?thesis
    by (simp add: dict_entries_def features_entry_def)
qed

section \<open>The row flattener\<close>

lemma and_then_Inr [simp]: "and_then (Inr v) f = f v"
  by (simp add: and_then_def)

lemma and_then_Inl [simp]: "and_then (Inl e) f = Inl e"
  by (simp add: and_then_def)

lemma and_then_eq_Inr: "and_then m f = Inr r \<longleftrightarrow> (\<exists>v. m = Inr v \<and> f v = Inr r)"
  by (cases m) simp_all

lemma append_lists_empty [simp]:
  "append_lists c empty_lists = c" "append_lists empty_lists c = c"
  by (simp_all add: append_lists_def empty_lists_def)

lemma append_lists_assoc:
  "append_lists (append_lists a b) c = append_lists a (append_lists b c)"
  by (simp add: append_lists_def)

lemma create_table_step_append:
  "create_table_step c f =
     (case create_table_step empty_lists f of
        Inl e \<Rightarrow> Inl e
      | Inr s \<Rightarrow> Inr (append_lists c s))"
  unfolding create_table_step_def Let_def
  by (simp add: and_then_def append_lists_def empty_lists_def split: sum.splits)


lemma create_table_loop_append:
  "create_table_loop fs c =
     (case create_table_loop fs empty_lists of
        Inl e \<Rightarrow> Inl e
      | Inr l \<Rightarrow> Inr (append_lists c l))"
proof (induction fs arbitrary: c)
  case Nil
  show ?case by simp
next
  case (Cons f fs)
  show ?case
  proof (cases "create_table_step empty_lists f")
    case (Inl e)
    then show ?thesis
      by (simp add: create_table_step_append [of c])
  next
    case (Inr s)
    have c: "create_table_step c f = Inr (append_lists c s)"
      by (simp add: create_table_step_append [of c] Inr)
    show ?thesis
      by (simp add: c Inr Cons.IH [of "append_lists c s"] Cons.IH [of s] append_lists_assoc
          split: sum.splits)
  qed
qed

text \<open>The loop over a non-empty list: the row of the head, then the rows of the tail.\<close>

lemma create_table_loop_Cons:
  "create_table_loop (f # fs) empty_lists =
     (case create_table_step empty_lists f of
        Inl e \<Rightarrow> Inl e
      | Inr s \<Rightarrow>
          (case create_table_loop fs empty_lists of
             Inl e \<Rightarrow> Inl e
           | Inr l \<Rightarrow> Inr (append_lists s l)))"
proof (cases "create_table_step empty_lists f")
  case (Inl e)
  then show ?thesis by simp
next
  case (Inr s)
  have "create_table_loop (f # fs) empty_lists = create_table_loop fs s"
    by (simp add: Inr)
  also have "\<dots> = (case create_table_loop fs empty_lists of
             Inl e \<Rightarrow> Inl e
           | Inr l \<Rightarrow> Inr (append_lists s l))"
    by (rule create_table_loop_append)
  finally show ?thesis by (simp add: Inr)
qed

text \<open>One pass appends one value to each list.\<close>

lemma create_table_step_single:
  assumes "create_table_step empty_lists f = Inr s"
  shows "\<exists>v1 v2 v3 v4 v5 v6 v7 v8 v9 v10 v11 v12 x y.
     s = \<lparr>ids = [v1], nuts3_names = [v2], nuts3_ids = [v3], lau1_names = [v4],
          lau1_ids = [v5], lau2_names = [v6], lau2_ids = [v7], district_names = [v8],
          streetnames = [v9], propertyregistrationnumbers = [v10],
          orientationnumbers = [v11], postalcodes = [v12], coord_x = [x], coord_y = [y]\<rparr>"
  using assms unfolding create_table_step_def Let_def
  by (auto simp: and_then_eq_Inr empty_lists_def)


text \<open>Reading an optional object or list and coalescing it.\<close>

lemma get_or_dict:
  assumes "optional is_dict x k"
  shows "\<exists>v. py_get x k JNull = Inr v \<and>
     py_or v (JObj []) = JObj (case member x k of Some (JObj ps) \<Rightarrow> ps | _ \<Rightarrow> [])"
proof (cases x)
  case (JObj kvs)
  show ?thesis
  proof (cases "map_of kvs k")
    case None
    then show ?thesis by (simp add: JObj member_def py_or_def)
  next
    case (Some v)
    with assms JObj have "\<not> truthy v \<or> is_dict v"
      by (simp add: optional_def member_def)
    then show ?thesis
      by (cases v) (auto simp: JObj Some member_def py_or_def)
  qed
qed (use assms in \<open>simp_all add: optional_def\<close>)

lemma get_or_list:
  assumes "optional is_list x k"
  shows "\<exists>v. py_get x k JNull = Inr v \<and>
     py_or v (JArr []) = JArr (case member x k of Some (JArr cs) \<Rightarrow> cs | _ \<Rightarrow> [])"
proof (cases x)
  case (JObj kvs)
  show ?thesis
  proof (cases "map_of kvs k")
    case None
    then show ?thesis by (simp add: JObj member_def py_or_def)
  next
    case (Some v)
    with assms JObj have "\<not> truthy v \<or> is_list v"
      by (simp add: optional_def member_def)
    then show ?thesis
      by (cases v) (auto simp: JObj Some member_def py_or_def)
  qed
qed (use assms in \<open>simp_all add: optional_def\<close>)

lemma get_or_geometry:
  assumes "optional (\<lambda>g. optional is_list g (ascii ''coordinates'')) f (ascii ''geometry'')"
  shows "\<exists>v. py_get f (ascii ''geometry'') JNull = Inr v \<and>
     optional is_list (py_or v (JObj [])) (ascii ''coordinates'') \<and>
     (case member (py_or v (JObj [])) (ascii ''coordinates'') of
        Some (JArr cs) \<Rightarrow> cs | _ \<Rightarrow> []) = coordinates_of f"
proof (cases f)
  case (JObj kvs)
  show ?thesis
  proof (cases "map_of kvs (ascii ''geometry'')")
    case None
    then show ?thesis
      by (simp add: JObj member_def py_or_def coordinates_of_def optional_def)
  next
    case (Some v)
    with assms JObj have "\<not> truthy v \<or> optional is_list v (ascii ''coordinates'')"
      by (simp add: optional_def member_def)
    then show ?thesis
    proof
      assume "\<not> truthy v"
      then show ?thesis
        by (cases v) (auto simp: JObj Some member_def py_or_def coordinates_of_def optional_def)
    next
      assume "optional is_list v (ascii ''coordinates'')"
      then show ?thesis
        by (cases "truthy v"; cases v)
          (auto simp: JObj Some member_def py_or_def coordinates_of_def optional_def)
    qed
  qed
qed (use assms in \<open>simp_all add: optional_def\<close>)

lemma coord_list:
  "i < 2 \<Longrightarrow> coord (JArr cs) i = Inr (if 2 \<le> length cs then cs ! i else JStr [])"
  by (simp add: coord_def)

text \<open>The row of a well-formed feature.\<close>

lemma create_table_step_shaped:
  assumes "feature_shaped f"
  shows "create_table_step empty_lists f =
     Inr \<lparr>ids = [property f (ascii ''identifier'')],
          nuts3_names = [property f (ascii ''nuts3_name'')],
          nuts3_ids = [property f (ascii ''nuts3_id'')],
          lau1_names = [property f (ascii ''lau1_name'')],
          lau1_ids = [property f (ascii ''lau1_id'')],
          lau2_names = [property f (ascii ''lau2_name'')],
          lau2_ids = [property f (ascii ''lau2_id'')],
          district_names = [property f (ascii ''district_name'')],
          streetnames = [property f (ascii ''streetname'')],
          propertyregistrationnumbers = [property f (ascii ''propertyregistrationnumber'')],
          orientationnumbers = [property f (ascii ''orientationnumber'')],
          postalcodes = [property f (ascii ''postalcode'')],
          coord_x = [coordinate f 0],
          coord_y = [coordinate f 1]\<rparr>"
proof -
  from assms have p: "optional is_dict f (ascii ''properties'')"
    and g: "optional (\<lambda>g. optional is_list g (ascii ''coordinates'')) f (ascii ''geometry'')"
    by (simp_all add: feature_shaped_def)
  from get_or_dict [OF p] obtain pv where
    pv: "py_get f (ascii ''properties'') JNull = Inr pv"
    and props: "py_or pv (JObj []) = JObj (properties_of f)"
    by (auto simp: properties_of_def)
  from get_or_geometry [OF g] obtain gv where
    gv: "py_get f (ascii ''geometry'') JNull = Inr gv"
    and geo: "optional is_list (py_or gv (JObj [])) (ascii ''coordinates'')"
    and cs: "(case member (py_or gv (JObj [])) (ascii ''coordinates'') of
        Some (JArr cs) \<Rightarrow> cs | _ \<Rightarrow> []) = coordinates_of f"
    by blast
  from get_or_list [OF geo] cs obtain cv where
    cv: "py_get (py_or gv (JObj [])) (ascii ''coordinates'') JNull = Inr cv"
    and coords: "py_or cv (JArr []) = JArr (coordinates_of f)"
    by auto
  show ?thesis
    unfolding create_table_step_def Let_def
    by (simp add: pv props gv cv coords coord_list property_def coordinate_def
        empty_lists_def)
qed

lemma create_table_loop_shaped:
  assumes "\<forall>f\<in>set features. feature_shaped f"
  shows "create_table_loop features empty_lists =
     Inr \<lparr>ids = map (\<lambda>f. property f (ascii ''identifier'')) features,
          nuts3_names = map (\<lambda>f. property f (ascii ''nuts3_name'')) features,
          nuts3_ids = map (\<lambda>f. property f (ascii ''nuts3_id'')) features,
          lau1_names = map (\<lambda>f. property f (ascii ''lau1_name'')) features,
          lau1_ids = map (\<lambda>f. property f (ascii ''lau1_id'')) features,
          lau2_names = map (\<lambda>f. property f (ascii ''lau2_name'')) features,
          lau2_ids = map (\<lambda>f. property f (ascii ''lau2_id'')) features,
          district_names = map (\<lambda>f. property f (ascii ''district_name'')) features,
          streetnames = map (\<lambda>f. property f (ascii ''streetname'')) features,
          propertyregistrationnumbers =
            map (\<lambda>f. property f (ascii ''propertyregistrationnumber'')) features,
          orientationnumbers = map (\<lambda>f. property f (ascii ''orientationnumber'')) features,
          postalcodes = map (\<lambda>f. property f (ascii ''postalcode'')) features,
          coord_x = map (\<lambda>f. coordinate f 0) features,
          coord_y = map (\<lambda>f. coordinate f 1) features\<rparr>"
  using assms
proof (induction features)
  case Nil
  show ?case by (simp add: empty_lists_def)
next
  case (Cons f fs)
  then have f: "feature_shaped f" and fs: "\<forall>f\<in>set fs. feature_shaped f"
    by simp_all
  show ?case
    by (simp only: create_table_loop_Cons create_table_step_shaped [OF f] Cons.IH [OF fs]
        sum.case append_lists_def lists.simps list.map append_Cons append_Nil)
qed


lemma create_table_Inr:
  "create_table features = Inr t \<longleftrightarrow>
     (\<exists>l. create_table_loop features empty_lists = Inr l \<and> t = res l)"
  by (auto simp: create_table_def and_then_eq_Inr)

lemma create_table_single:
  "create_table_step empty_lists f = Inr s \<Longrightarrow> create_table [f] = Inr (res s)"
  by (simp add: create_table_def)

text \<open>
  Every list of the loop's result has one entry per feature, and entry \<open>i\<close> is the one
  the pass over feature \<open>i\<close> appends.
\<close>

lemma create_table_loop_rows:
  "create_table_loop fs empty_lists = Inr l \<Longrightarrow>
     (\<forall>col\<in>set (map snd (res l)). length col = length fs) \<and>
     (\<forall>i<length fs. \<exists>s. create_table_step empty_lists (fs ! i) = Inr s \<and>
        map (\<lambda>col. col ! i) (map snd (res l)) = map hd (map snd (res s)))"
proof (induction fs arbitrary: l)
  case Nil
  then have "l = empty_lists" by simp
  then show ?case by (simp add: res_def empty_lists_def)
next
  case (Cons f fs)
  from Cons.prems have "(case create_table_step empty_lists f of
        Inl e \<Rightarrow> Inl e
      | Inr s \<Rightarrow>
          (case create_table_loop fs empty_lists of
             Inl e \<Rightarrow> Inl e
           | Inr l \<Rightarrow> Inr (append_lists s l))) = Inr l"
    by (simp only: create_table_loop_Cons)
  then obtain s l' where s: "create_table_step empty_lists f = Inr s"
    and l': "create_table_loop fs empty_lists = Inr l'" and l: "l = append_lists s l'"
    by (auto split: sum.splits)
  from create_table_step_single [OF s] obtain v1 v2 v3 v4 v5 v6 v7 v8 v9 v10 v11 v12 x y where
    single: "s = \<lparr>ids = [v1], nuts3_names = [v2], nuts3_ids = [v3], lau1_names = [v4],
          lau1_ids = [v5], lau2_names = [v6], lau2_ids = [v7], district_names = [v8],
          streetnames = [v9], propertyregistrationnumbers = [v10],
          orientationnumbers = [v11], postalcodes = [v12], coord_x = [x], coord_y = [y]\<rparr>"
    by blast
  from Cons.IH [OF l'] have len: "\<forall>col\<in>set (map snd (res l')). length col = length fs"
    and rows: "\<forall>i<length fs. \<exists>s. create_table_step empty_lists (fs ! i) = Inr s \<and>
        map (\<lambda>col. col ! i) (map snd (res l')) = map hd (map snd (res s))"
    by blast+
  have "\<forall>col\<in>set (map snd (res l)). length col = length (f # fs)"
    using len by (simp add: l single res_def append_lists_def)
  moreover have "\<forall>i<length (f # fs). \<exists>s. create_table_step empty_lists ((f # fs) ! i) = Inr s \<and>
        map (\<lambda>col. col ! i) (map snd (res l)) = map hd (map snd (res s))"
  proof (intro allI impI)
    fix i
    assume i: "i < length (f # fs)"
    show "\<exists>s. create_table_step empty_lists ((f # fs) ! i) = Inr s \<and>
        map (\<lambda>col. col ! i) (map snd (res l)) = map hd (map snd (res s))"
    proof (cases i)
      case 0
      have "map (\<lambda>col. col ! 0) (map snd (res l)) = map hd (map snd (res s))"
        by (simp add: l single res_def append_lists_def)
      with s 0 show ?thesis by auto
    next
      case (Suc j)
      with i have "j < length fs" by simp
      with rows obtain s' where s': "create_table_step empty_lists (fs ! j) = Inr s'"
        and eq: "map (\<lambda>col. col ! j) (map snd (res l')) = map hd (map snd (res s'))"
        by blast
      have "map (\<lambda>col. col ! Suc j) (map snd (res l)) = map (\<lambda>col. col ! j) (map snd (res l'))"
        by (simp add: l single res_def append_lists_def)
      with s' eq Suc show ?thesis by auto
    qed
  qed
  ultimately show ?case by blast
qed

lemma res_names: "map fst (res l) = map fst (res empty_lists)"
  by (simp add: res_def)

lemma res_distinct: "distinct (map fst (res l))"
  by (simp add: res_def Kraj_def ascii_def)

text \<open>
  C2. For every list of well-formed features, \<open>create_table\<close> returns the table in which
  each of the twelve property columns holds, for every feature, the field of that name
  of the feature's properties mapping, the empty string when the field is absent; and
  ADRBOD_X and ADRBOD_Y hold the first two elements of the coordinate sequence as they
  are when it has at least two elements, the empty string otherwise. The columns are
  written out with their names, one cell per feature.
\<close>

theorem create_table_cells:
  assumes "\<forall>f\<in>set features. feature_shaped f"
  shows "create_table features =
     Inr [(ascii ''Identifik'' @ [0xE1] @ ascii ''tor'',
             map (\<lambda>f. property f (ascii ''identifier'')) features),
          (ascii ''Kraj'',
             map (\<lambda>f. property f (ascii ''nuts3_name'')) features),
          (ascii ''ID kraja'',
             map (\<lambda>f. property f (ascii ''nuts3_id'')) features),
          (ascii ''Okres'',
             map (\<lambda>f. property f (ascii ''lau1_name'')) features),
          (ascii ''ID Okresu'',
             map (\<lambda>f. property f (ascii ''lau1_id'')) features),
          (ascii ''Obec'',
             map (\<lambda>f. property f (ascii ''lau2_name'')) features),
          (ascii ''ID obce'',
             map (\<lambda>f. property f (ascii ''lau2_id'')) features),
          ([0x10C] @ ascii ''as'' @ [0x165] @ ascii '' obce'',
             map (\<lambda>f. property f (ascii ''district_name'')) features),
          (ascii ''Ulica'',
             map (\<lambda>f. property f (ascii ''streetname'')) features),
          (ascii ''S'' @ [0xFA] @ ascii ''pisn'' @ [0xE9] @ ascii '' '' @ [0x10D, 0xED] @ ascii ''slo'',
             map (\<lambda>f. property f (ascii ''propertyregistrationnumber'')) features),
          (ascii ''Orienta'' @ [0x10D] @ ascii ''n'' @ [0xE9] @ ascii '' '' @ [0x10D, 0xED] @
             ascii ''slo cel'' @ [0xE9],
             map (\<lambda>f. property f (ascii ''orientationnumber'')) features),
          (ascii ''PS'' @ [0x10C],
             map (\<lambda>f. property f (ascii ''postalcode'')) features),
          (ascii ''ADRBOD_X'',
             map (\<lambda>f. coordinate f 0) features),
          (ascii ''ADRBOD_Y'',
             map (\<lambda>f. coordinate f 1) features)]"
  by (simp add: create_table_def create_table_loop_shaped [OF assms] res_def Kraj_def)

text \<open>
  C3. Whenever \<open>create_table\<close> returns a table, it has exactly the fourteen named columns,
  every column has one entry per input feature, and row \<open>i\<close> is the row that feature \<open>i\<close>
  gives alone; and it does return a table for every list of well-formed features.
\<close>

theorem create_table_shape:
  "(create_table features = Inr t \<longrightarrow>
      map fst t = map fst (res empty_lists) \<and> length t = 14 \<and> distinct (map fst t) \<and>
      (\<forall>c\<in>set t. length (snd c) = length features) \<and>
      (\<forall>i<length features. \<exists>r. create_table [features ! i] = Inr r \<and>
         map (\<lambda>c. snd c ! i) t = map (\<lambda>c. hd (snd c)) r)) \<and>
   ((\<forall>f\<in>set features. feature_shaped f) \<longrightarrow> (\<exists>t. create_table features = Inr t))"
proof (intro conjI impI)
  assume "create_table features = Inr t"
  then obtain l where l: "create_table_loop features empty_lists = Inr l" and t: "t = res l"
    by (auto simp: create_table_Inr)
  show "map fst t = map fst (res empty_lists)"
    unfolding t by (rule res_names)
  show "length t = 14"
    by (simp add: t res_def)
  show "distinct (map fst t)"
    unfolding t by (rule res_distinct)
  from create_table_loop_rows [OF l]
  have len: "\<forall>col\<in>set (map snd (res l)). length col = length features"
    and rows: "\<forall>i<length features. \<exists>s. create_table_step empty_lists (features ! i) = Inr s \<and>
        map (\<lambda>col. col ! i) (map snd (res l)) = map hd (map snd (res s))"
    by blast+
  from len show "\<forall>c\<in>set t. length (snd c) = length features"
    by (simp add: t)
  show "\<forall>i<length features. \<exists>r. create_table [features ! i] = Inr r \<and>
         map (\<lambda>c. snd c ! i) t = map (\<lambda>c. hd (snd c)) r"
  proof (intro allI impI)
    fix i
    assume "i < length features"
    with rows obtain s where s: "create_table_step empty_lists (features ! i) = Inr s"
      and eq: "map (\<lambda>col. col ! i) (map snd (res l)) = map hd (map snd (res s))"
      by blast
    from eq have "map (\<lambda>c. snd c ! i) t = map (\<lambda>c. hd (snd c)) (res s)"
      by (simp add: t comp_def)
    with create_table_single [OF s]
    show "\<exists>r. create_table [features ! i] = Inr r \<and>
         map (\<lambda>c. snd c ! i) t = map (\<lambda>c. hd (snd c)) r"
      by blast
  qed
next
  assume "\<forall>f\<in>set features. feature_shaped f"
  then show "\<exists>t. create_table features = Inr t"
    by (simp add: create_table_def create_table_loop_shaped)
qed


lemma falsy_properties:
  "falsy_at f (ascii ''properties'') \<Longrightarrow> property f k = JStr []"
  by (auto simp: falsy_at_def property_def properties_of_def split: option.splits json.splits)

lemma falsy_coordinates:
  assumes "falsy_at f (ascii ''geometry'') \<or>
     (\<exists>g. member f (ascii ''geometry'') = Some g \<and> falsy_at g (ascii ''coordinates''))"
  shows "coordinate f i = JStr []"
proof -
  from assms have "coordinates_of f = []"
    by (auto simp: falsy_at_def coordinates_of_def member_def split: option.splits json.splits)
  then show ?thesis by (simp add: coordinate_def)
qed

lemmas table_eval =
  create_table_def create_table_step_def coord_def py_or_def empty_lists_def Let_def

lemmas shape_eval =
  feature_shaped_def optional_def member_def property_def properties_of_def
  coordinate_def coordinates_of_def falsy_at_def

theorem create_table_cells_witness:
  "create_table [address, bare_feature] =
     Inr [(ascii ''Identifik'' @ [0xE1] @ ascii ''tor'',
             [JStr (ascii ''A1''), JStr []]),
          (ascii ''Kraj'',
             [JStr (ascii ''Bratislavsk'' @ [0xFD]), JStr []]),
          (ascii ''ID kraja'',
             [JStr [], JStr []]),
          (ascii ''Okres'',
             [JStr [], JStr []]),
          (ascii ''ID Okresu'',
             [JStr [], JStr []]),
          (ascii ''Obec'',
             [JStr [], JStr []]),
          (ascii ''ID obce'',
             [JStr [], JStr []]),
          ([0x10C] @ ascii ''as'' @ [0x165] @ ascii '' obce'',
             [JStr [], JStr []]),
          (ascii ''Ulica'',
             [JStr [], JStr []]),
          (ascii ''S'' @ [0xFA] @ ascii ''pisn'' @ [0xE9] @ ascii '' '' @ [0x10D, 0xED] @ ascii ''slo'',
             [JStr [], JStr []]),
          (ascii ''Orienta'' @ [0x10D] @ ascii ''n'' @ [0xE9] @ ascii '' '' @ [0x10D, 0xED] @
             ascii ''slo cel'' @ [0xE9],
             [JStr [], JStr []]),
          (ascii ''PS'' @ [0x10C],
             [JStr [], JStr []]),
          (ascii ''ADRBOD_X'',
             [JFloat 17.1, JStr []]),
          (ascii ''ADRBOD_Y'',
             [JFloat 48.1, JStr []])]"
  using create_table_cells [of "[address, bare_feature]"]
  by (simp add: shape_eval address_def bare_feature_def)

theorem create_table_shape_witness:
  "(\<exists>t. create_table [address, bare_feature] = Inr t \<and>
        map fst t = map fst (res empty_lists) \<and> length t = 14 \<and> distinct (map fst t) \<and>
        map (\<lambda>c. length (snd c)) t = replicate 14 2 \<and>
        (\<exists>r. create_table [bare_feature] = Inr r \<and>
           map (\<lambda>c. snd c ! 1) t = map (\<lambda>c. hd (snd c)) r))"
proof -
  have "\<forall>f\<in>set [address, bare_feature]. feature_shaped f"
    by (simp add: shape_eval address_def bare_feature_def)
  with create_table_shape [of "[address, bare_feature]"]
  obtain t where t: "create_table [address, bare_feature] = Inr t"
    by blast
  with create_table_shape [of "[address, bare_feature]" t]
  have names: "map fst t = map fst (res empty_lists)" and n: "length t = 14"
    and d: "distinct (map fst t)"
    and len: "\<forall>c\<in>set t. length (snd c) = length [address, bare_feature]"
    and rows: "\<forall>i<length [address, bare_feature]. \<exists>r.
        create_table [[address, bare_feature] ! i] = Inr r \<and>
        map (\<lambda>c. snd c ! i) t = map (\<lambda>c. hd (snd c)) r"
    by blast+
  from len have "map (\<lambda>c. length (snd c)) t = replicate (length t) 2"
    by (simp add: map_replicate_const [symmetric])
  with n have lens: "map (\<lambda>c. length (snd c)) t = replicate 14 2" by simp
  from rows [rule_format, of 1]
  have "\<exists>r. create_table [bare_feature] = Inr r \<and>
           map (\<lambda>c. snd c ! 1) t = map (\<lambda>c. hd (snd c)) r"
    by simp
  with t names n d lens show ?thesis by blast
qed

text \<open>
  C10, as amended. For every feature whose \<open>properties\<close>, \<open>geometry\<close> or \<open>coordinates\<close>
  key is present but bound to null or another falsy value, and whose other keys among
  these are absent, falsy or of the expected type (an object for \<open>properties\<close> and
  \<open>geometry\<close>, a list for \<open>coordinates\<close>), \<open>create_table\<close> does not fault: it returns the
  fourteen named columns with exactly one cell each; when \<open>properties\<close> is so bound the
  twelve property columns hold the empty string; when \<open>geometry\<close>, or the \<open>coordinates\<close> of
  the geometry, is so bound, ADRBOD_X and ADRBOD_Y hold the empty string.
\<close>

theorem create_table_null_coalesced:
  assumes "feature_shaped f"
  shows "create_table [f] =
       Inr [(ascii ''Identifik'' @ [0xE1] @ ascii ''tor'',
               [property f (ascii ''identifier'')]),
            (ascii ''Kraj'',
               [property f (ascii ''nuts3_name'')]),
            (ascii ''ID kraja'',
               [property f (ascii ''nuts3_id'')]),
            (ascii ''Okres'',
               [property f (ascii ''lau1_name'')]),
            (ascii ''ID Okresu'',
               [property f (ascii ''lau1_id'')]),
            (ascii ''Obec'',
               [property f (ascii ''lau2_name'')]),
            (ascii ''ID obce'',
               [property f (ascii ''lau2_id'')]),
            ([0x10C] @ ascii ''as'' @ [0x165] @ ascii '' obce'',
               [property f (ascii ''district_name'')]),
            (ascii ''Ulica'',
               [property f (ascii ''streetname'')]),
            (ascii ''S'' @ [0xFA] @ ascii ''pisn'' @ [0xE9] @ ascii '' '' @ [0x10D, 0xED] @ ascii ''slo'',
               [property f (ascii ''propertyregistrationnumber'')]),
            (ascii ''Orienta'' @ [0x10D] @ ascii ''n'' @ [0xE9] @ ascii '' '' @ [0x10D, 0xED] @
             ascii ''slo cel'' @ [0xE9],
               [property f (ascii ''orientationnumber'')]),
            (ascii ''PS'' @ [0x10C],
               [property f (ascii ''postalcode'')]),
            (ascii ''ADRBOD_X'',
               [coordinate f 0]),
            (ascii ''ADRBOD_Y'',
               [coordinate f 1])] \<and>
     (falsy_at f (ascii ''properties'') \<longrightarrow>
      create_table [f] =
       Inr [(ascii ''Identifik'' @ [0xE1] @ ascii ''tor'',
               [JStr []]),
            (ascii ''Kraj'',
               [JStr []]),
            (ascii ''ID kraja'',
               [JStr []]),
            (ascii ''Okres'',
               [JStr []]),
            (ascii ''ID Okresu'',
               [JStr []]),
            (ascii ''Obec'',
               [JStr []]),
            (ascii ''ID obce'',
               [JStr []]),
            ([0x10C] @ ascii ''as'' @ [0x165] @ ascii '' obce'',
               [JStr []]),
            (ascii ''Ulica'',
               [JStr []]),
            (ascii ''S'' @ [0xFA] @ ascii ''pisn'' @ [0xE9] @ ascii '' '' @ [0x10D, 0xED] @ ascii ''slo'',
               [JStr []]),
            (ascii ''Orienta'' @ [0x10D] @ ascii ''n'' @ [0xE9] @ ascii '' '' @ [0x10D, 0xED] @
             ascii ''slo cel'' @ [0xE9],
               [JStr []]),
            (ascii ''PS'' @ [0x10C],
               [JStr []]),
            (ascii ''ADRBOD_X'',
               [coordinate f 0]),
            (ascii ''ADRBOD_Y'',
               [coordinate f 1])]) \<and>
     (falsy_at f (ascii ''geometry'') \<or>
      (\<exists>g. member f (ascii ''geometry'') = Some g \<and> falsy_at g (ascii ''coordinates'')) \<longrightarrow>
      create_table [f] =
       Inr [(ascii ''Identifik'' @ [0xE1] @ ascii ''tor'',
               [property f (ascii ''identifier'')]),
            (ascii ''Kraj'',
               [property f (ascii ''nuts3_name'')]),
            (ascii ''ID kraja'',
               [property f (ascii ''nuts3_id'')]),
            (ascii ''Okres'',
               [property f (ascii ''lau1_name'')]),
            (ascii ''ID Okresu'',
               [property f (ascii ''lau1_id'')]),
            (ascii ''Obec'',
               [property f (ascii ''lau2_name'')]),
            (ascii ''ID obce'',
               [property f (ascii ''lau2_id'')]),
            ([0x10C] @ ascii ''as'' @ [0x165] @ ascii '' obce'',
               [property f (ascii ''district_name'')]),
            (ascii ''Ulica'',
               [property f (ascii ''streetname'')]),
            (ascii ''S'' @ [0xFA] @ ascii ''pisn'' @ [0xE9] @ ascii '' '' @ [0x10D, 0xED] @ ascii ''slo'',
               [property f (ascii ''propertyregistrationnumber'')]),
            (ascii ''Orienta'' @ [0x10D] @ ascii ''n'' @ [0xE9] @ ascii '' '' @ [0x10D, 0xED] @
             ascii ''slo cel'' @ [0xE9],
               [property f (ascii ''orientationnumber'')]),
            (ascii ''PS'' @ [0x10C],
               [property f (ascii ''postalcode'')]),
            (ascii ''ADRBOD_X'',
               [JStr []]),
            (ascii ''ADRBOD_Y'',
               [JStr []])])"
proof -
  have t: "create_table [f] =
       Inr [(ascii ''Identifik'' @ [0xE1] @ ascii ''tor'',
               [property f (ascii ''identifier'')]),
            (ascii ''Kraj'',
               [property f (ascii ''nuts3_name'')]),
            (ascii ''ID kraja'',
               [property f (ascii ''nuts3_id'')]),
            (ascii ''Okres'',
               [property f (ascii ''lau1_name'')]),
            (ascii ''ID Okresu'',
               [property f (ascii ''lau1_id'')]),
            (ascii ''Obec'',
               [property f (ascii ''lau2_name'')]),
            (ascii ''ID obce'',
               [property f (ascii ''lau2_id'')]),
            ([0x10C] @ ascii ''as'' @ [0x165] @ ascii '' obce'',
               [property f (ascii ''district_name'')]),
            (ascii ''Ulica'',
               [property f (ascii ''streetname'')]),
            (ascii ''S'' @ [0xFA] @ ascii ''pisn'' @ [0xE9] @ ascii '' '' @ [0x10D, 0xED] @ ascii ''slo'',
               [property f (ascii ''propertyregistrationnumber'')]),
            (ascii ''Orienta'' @ [0x10D] @ ascii ''n'' @ [0xE9] @ ascii '' '' @ [0x10D, 0xED] @
             ascii ''slo cel'' @ [0xE9],
               [property f (ascii ''orientationnumber'')]),
            (ascii ''PS'' @ [0x10C],
               [property f (ascii ''postalcode'')]),
            (ascii ''ADRBOD_X'',
               [coordinate f 0]),
            (ascii ''ADRBOD_Y'',
               [coordinate f 1])]"
    by (simp add: create_table_single [OF create_table_step_shaped [OF assms]] res_def Kraj_def)
  show ?thesis
  proof (intro conjI impI)
    show "create_table [f] =
       Inr [(ascii ''Identifik'' @ [0xE1] @ ascii ''tor'',
               [property f (ascii ''identifier'')]),
            (ascii ''Kraj'',
               [property f (ascii ''nuts3_name'')]),
            (ascii ''ID kraja'',
               [property f (ascii ''nuts3_id'')]),
            (ascii ''Okres'',
               [property f (ascii ''lau1_name'')]),
            (ascii ''ID Okresu'',
               [property f (ascii ''lau1_id'')]),
            (ascii ''Obec'',
               [property f (ascii ''lau2_name'')]),
            (ascii ''ID obce'',
               [property f (ascii ''lau2_id'')]),
            ([0x10C] @ ascii ''as'' @ [0x165] @ ascii '' obce'',
               [property f (ascii ''district_name'')]),
            (ascii ''Ulica'',
               [property f (ascii ''streetname'')]),
            (ascii ''S'' @ [0xFA] @ ascii ''pisn'' @ [0xE9] @ ascii '' '' @ [0x10D, 0xED] @ ascii ''slo'',
               [property f (ascii ''propertyregistrationnumber'')]),
            (ascii ''Orienta'' @ [0x10D] @ ascii ''n'' @ [0xE9] @ ascii '' '' @ [0x10D, 0xED] @
             ascii ''slo cel'' @ [0xE9],
               [property f (ascii ''orientationnumber'')]),
            (ascii ''PS'' @ [0x10C],
               [property f (ascii ''postalcode'')]),
            (ascii ''ADRBOD_X'',
               [coordinate f 0]),
            (ascii ''ADRBOD_Y'',
               [coordinate f 1])]"
      by (rule t)
  next
    assume "falsy_at f (ascii ''properties'')"
    then show "create_table [f] =
       Inr [(ascii ''Identifik'' @ [0xE1] @ ascii ''tor'',
               [JStr []]),
            (ascii ''Kraj'',
               [JStr []]),
            (ascii ''ID kraja'',
               [JStr []]),
            (ascii ''Okres'',
               [JStr []]),
            (ascii ''ID Okresu'',
               [JStr []]),
            (ascii ''Obec'',
               [JStr []]),
            (ascii ''ID obce'',
               [JStr []]),
            ([0x10C] @ ascii ''as'' @ [0x165] @ ascii '' obce'',
               [JStr []]),
            (ascii ''Ulica'',
               [JStr []]),
            (ascii ''S'' @ [0xFA] @ ascii ''pisn'' @ [0xE9] @ ascii '' '' @ [0x10D, 0xED] @ ascii ''slo'',
               [JStr []]),
            (ascii ''Orienta'' @ [0x10D] @ ascii ''n'' @ [0xE9] @ ascii '' '' @ [0x10D, 0xED] @
             ascii ''slo cel'' @ [0xE9],
               [JStr []]),
            (ascii ''PS'' @ [0x10C],
               [JStr []]),
            (ascii ''ADRBOD_X'',
               [coordinate f 0]),
            (ascii ''ADRBOD_Y'',
               [coordinate f 1])]"
      by (simp add: t falsy_properties)
  next
    assume "falsy_at f (ascii ''geometry'') \<or>
      (\<exists>g. member f (ascii ''geometry'') = Some g \<and> falsy_at g (ascii ''coordinates''))"
    then have "coordinate f 0 = JStr []" and "coordinate f 1 = JStr []"
      by (rule falsy_coordinates)+
    then show "create_table [f] =
       Inr [(ascii ''Identifik'' @ [0xE1] @ ascii ''tor'',
               [property f (ascii ''identifier'')]),
            (ascii ''Kraj'',
               [property f (ascii ''nuts3_name'')]),
            (ascii ''ID kraja'',
               [property f (ascii ''nuts3_id'')]),
            (ascii ''Okres'',
               [property f (ascii ''lau1_name'')]),
            (ascii ''ID Okresu'',
               [property f (ascii ''lau1_id'')]),
            (ascii ''Obec'',
               [property f (ascii ''lau2_name'')]),
            (ascii ''ID obce'',
               [property f (ascii ''lau2_id'')]),
            ([0x10C] @ ascii ''as'' @ [0x165] @ ascii '' obce'',
               [property f (ascii ''district_name'')]),
            (ascii ''Ulica'',
               [property f (ascii ''streetname'')]),
            (ascii ''S'' @ [0xFA] @ ascii ''pisn'' @ [0xE9] @ ascii '' '' @ [0x10D, 0xED] @ ascii ''slo'',
               [property f (ascii ''propertyregistrationnumber'')]),
            (ascii ''Orienta'' @ [0x10D] @ ascii ''n'' @ [0xE9] @ ascii '' '' @ [0x10D, 0xED] @
             ascii ''slo cel'' @ [0xE9],
               [property f (ascii ''orientationnumber'')]),
            (ascii ''PS'' @ [0x10C],
               [property f (ascii ''postalcode'')]),
            (ascii ''ADRBOD_X'',
               [JStr []]),
            (ascii ''ADRBOD_Y'',
               [JStr []])]"
      by (simp add: t)
  qed
qed

theorem create_table_null_coalesced_witness:
  "create_table [null_feature] =
     Inr [(ascii ''Identifik'' @ [0xE1] @ ascii ''tor'',
             [JStr []]),
          (ascii ''Kraj'',
             [JStr []]),
          (ascii ''ID kraja'',
             [JStr []]),
          (ascii ''Okres'',
             [JStr []]),
          (ascii ''ID Okresu'',
             [JStr []]),
          (ascii ''Obec'',
             [JStr []]),
          (ascii ''ID obce'',
             [JStr []]),
          ([0x10C] @ ascii ''as'' @ [0x165] @ ascii '' obce'',
             [JStr []]),
          (ascii ''Ulica'',
             [JStr []]),
          (ascii ''S'' @ [0xFA] @ ascii ''pisn'' @ [0xE9] @ ascii '' '' @ [0x10D, 0xED] @ ascii ''slo'',
             [JStr []]),
          (ascii ''Orienta'' @ [0x10D] @ ascii ''n'' @ [0xE9] @ ascii '' '' @ [0x10D, 0xED] @
             ascii ''slo cel'' @ [0xE9],
             [JStr []]),
          (ascii ''PS'' @ [0x10C],
             [JStr []]),
          (ascii ''ADRBOD_X'',
             [JStr []]),
          (ascii ''ADRBOD_Y'',
             [JStr []])]"
proof -
  have shaped: "feature_shaped null_feature"
    by (simp add: shape_eval null_feature_def)
  have falsy: "falsy_at null_feature (ascii ''properties'')"
    by (simp add: falsy_at_def member_def null_feature_def)
  have c0: "coordinate null_feature 0 = JStr []" and c1: "coordinate null_feature 1 = JStr []"
    by (simp_all add: shape_eval null_feature_def)
  from create_table_null_coalesced [OF shaped, THEN conjunct2, THEN conjunct1, rule_format, OF falsy]
  show ?thesis
    by (simp only: c0 c1)
qed

text \<open>
  C10 as stated fails: a feature whose \<open>properties\<close> key is bound to null and whose
  \<open>geometry\<close> is the number 5 has a key present but null, and \<open>create_table\<close> raises
  AttributeError at \<open>geometry.get\<close>.
\<close>

theorem create_table_null_counterexample:
  "falsy_at odd_feature (ascii ''properties'') \<and> create_table [odd_feature] = Inl AttributeError"
  by (simp add: table_eval falsy_at_def member_def odd_feature_def)

section \<open>The aggregate file and the region files\<close>

lemma mset_insert_row: "mset (insert_row le i r xs) = add_mset r (mset xs)"
  by (induction xs) simp_all

lemma mset_sorted_rows: "mset (foldr (insert_row le i) rs []) = mset rs"
  by (induction rs) (simp_all add: mset_insert_row)

lemma index_of_member: "c \<in> set xs \<Longrightarrow> \<exists>i. index_of xs c = Some i"
  by (induction xs) auto

lemma index_of_nonempty: "index_of xs c = Some i \<Longrightarrow> xs \<noteq> []"
  by (cases xs) simp_all

text \<open>The files the loop over the mapping writes, in closed form.\<close>

lemma save_individual_files:
  assumes "index_of (columns df) Kraj = Some i"
  shows "save_individual df m =
     (None,
      map (\<lambda>(kraj, abb).
             (dest_root @ abb @ ascii ''.csv'',
              df\<lparr>rows := filter (\<lambda>r. r ! i = JStr kraj) (rows df)\<rparr>))
        (filter (\<lambda>(kraj, abb). \<exists>r\<in>set (rows df). r ! i = JStr kraj) m))"
proof (induction m)
  case Nil
  show ?case by simp
next
  case (Cons ka m)
  obtain kraj abb where ka: "ka = (kraj, abb)" by (cases ka)
  have ne: "columns df \<noteq> []"
    using assms by (rule index_of_nonempty)
  show ?case
    by (simp add: ka Cons.IH select_eq_def assms empty_def ne filter_empty_conv)
qed

lemma path_inj: "dest_root @ a @ ascii ''.csv'' = dest_root @ b @ ascii ''.csv'' \<longleftrightarrow> a = b"
  by simp

lemma name_to_abb_keys: "distinct (map fst name_to_abb)"
  by (simp add: name_to_abb_def ascii_def)

lemma name_to_abb_codes: "distinct (map snd name_to_abb)"
  by (simp add: name_to_abb_def)

lemma same_code:
  assumes "distinct (map snd m)" and "(k, a) \<in> set m" and "(k', a) \<in> set m"
  shows "k = k'"
proof -
  from assms(1) have "inj_on snd (set m)" by (simp add: distinct_map)
  from inj_onD [OF this, of "(k, a)" "(k', a)"] assms(2,3) show ?thesis by simp
qed

lemma same_key:
  assumes "distinct (map fst m)" and "(k, a) \<in> set m" and "(k, a') \<in> set m"
  shows "a = a'"
proof -
  from assms(1) have "inj_on fst (set m)" by (simp add: distinct_map)
  from inj_onD [OF this, of "(k, a)" "(k, a')"] assms(2,3) show ?thesis by simp
qed

lemma region_files_general:
  assumes keys: "distinct (map fst m)" and codes: "distinct (map snd m)"
    and ws: "ws = map (\<lambda>(kraj, abb).
             (dest_root @ abb @ ascii ''.csv'',
              df\<lparr>rows := filter (\<lambda>r. r ! i = JStr kraj) (rows df)\<rparr>))
        (filter (\<lambda>(kraj, abb). \<exists>r\<in>set (rows df). r ! i = JStr kraj) m)"
  shows "distinct (map fst ws) \<and>
     (\<forall>(kraj, abb)\<in>set m.
        (\<forall>r\<in>set (rows df). r ! i = JStr kraj \<longrightarrow>
           (\<exists>w\<in>set ws. fst w = dest_root @ abb @ ascii ''.csv'') \<and>
           (\<forall>w\<in>set ws. r \<in> set (rows (snd w)) \<longleftrightarrow> fst w = dest_root @ abb @ ascii ''.csv'')) \<and>
        ((\<forall>r\<in>set (rows df). r ! i \<noteq> JStr kraj) \<longrightarrow>
           dest_root @ abb @ ascii ''.csv'' \<notin> fst ` set ws))"
proof (intro conjI)
  define codes' where
    "codes' = map snd (filter (\<lambda>(kraj, abb). \<exists>r\<in>set (rows df). r ! i = JStr kraj) m)"
  have paths: "map fst ws = map (\<lambda>a. dest_root @ a @ ascii ''.csv'') codes'"
    by (simp add: ws codes'_def comp_def case_prod_beta)
  have "distinct codes'"
    unfolding codes'_def using codes by (rule distinct_map_filter)
  then have "distinct (map (\<lambda>a. dest_root @ a @ ascii ''.csv'') codes')"
    by (simp add: distinct_map inj_on_def)
  with paths show "distinct (map fst ws)"
    by simp
next
  show "\<forall>(kraj, abb)\<in>set m.
        (\<forall>r\<in>set (rows df). r ! i = JStr kraj \<longrightarrow>
           (\<exists>w\<in>set ws. fst w = dest_root @ abb @ ascii ''.csv'') \<and>
           (\<forall>w\<in>set ws. r \<in> set (rows (snd w)) \<longleftrightarrow> fst w = dest_root @ abb @ ascii ''.csv'')) \<and>
        ((\<forall>r\<in>set (rows df). r ! i \<noteq> JStr kraj) \<longrightarrow>
           dest_root @ abb @ ascii ''.csv'' \<notin> fst ` set ws)"
  proof (intro ballI, clarify, intro conjI ballI impI)
    fix kraj abb r
    assume m: "(kraj, abb) \<in> set m" and r: "r \<in> set (rows df)" and k: "r ! i = JStr kraj"
    then show "\<exists>w\<in>set ws. fst w = dest_root @ abb @ ascii ''.csv''"
      by (force simp: ws)
  next
    fix kraj abb r w
    assume m: "(kraj, abb) \<in> set m" and r: "r \<in> set (rows df)" and k: "r ! i = JStr kraj"
      and w: "w \<in> set ws"
    from w obtain k' a' where m': "(k', a') \<in> set m"
      and w': "w = (dest_root @ a' @ ascii ''.csv'',
              df\<lparr>rows := filter (\<lambda>r. r ! i = JStr k') (rows df)\<rparr>)"
      by (auto simp: ws)
    show "r \<in> set (rows (snd w)) \<longleftrightarrow> fst w = dest_root @ abb @ ascii ''.csv''"
    proof
      assume "r \<in> set (rows (snd w))"
      with w' k have "k' = kraj" by simp
      with same_key [OF keys m] m' have "a' = abb" by simp
      with w' show "fst w = dest_root @ abb @ ascii ''.csv''" by simp
    next
      assume "fst w = dest_root @ abb @ ascii ''.csv''"
      with w' have "a' = abb" by simp
      with same_code [OF codes m] m' have "k' = kraj" by simp
      with w' r k show "r \<in> set (rows (snd w))" by simp
    qed
  next
    fix kraj abb
    assume m: "(kraj, abb) \<in> set m" and none: "\<forall>r\<in>set (rows df). r ! i \<noteq> JStr kraj"
    show "dest_root @ abb @ ascii ''.csv'' \<notin> fst ` set ws"
    proof
      assume "dest_root @ abb @ ascii ''.csv'' \<in> fst ` set ws"
      then obtain k' where m': "(k', abb) \<in> set m"
        and some: "\<exists>r\<in>set (rows df). r ! i = JStr k'"
        by (fastforce simp: ws)
      from same_code [OF codes m m'] have "k' = kraj" by simp
      with some none show False by simp
    qed
  qed
qed

text \<open>
  C4. For every table that has equal-length columns and a \<open>Kraj\<close> column: the aggregate
  file \<open>kraje.csv\<close> holds every row of the table, whatever its region name; the loop over
  the eight regions writes each file at most once; every row whose \<open>Kraj\<close> cell is a key
  of \<open>name_to_abb\<close> is in the file named by that key's code and in no other file of the
  loop; and a region with no row has no file.
\<close>

theorem region_files:
  assumes "DataFrame t = Inr df0" and "Kraj \<in> set (map fst t)"
  shows "\<exists>df i ws.
     save_kraje le t = Inr (df, [(dest_root @ ascii ''kraje.csv'', df)]) \<and>
     mset (rows df) = mset (rows df0) \<and>
     index_of (columns df) Kraj = Some i \<and>
     save_individual df name_to_abb = (None, ws) \<and>
     distinct (map fst ws) \<and>
     (\<forall>(kraj, abb)\<in>set name_to_abb.
        (\<forall>r\<in>set (rows df). r ! i = JStr kraj \<longrightarrow>
           (\<exists>w\<in>set ws. fst w = dest_root @ abb @ ascii ''.csv'') \<and>
           (\<forall>w\<in>set ws. r \<in> set (rows (snd w)) \<longleftrightarrow> fst w = dest_root @ abb @ ascii ''.csv'')) \<and>
        ((\<forall>r\<in>set (rows df). r ! i \<noteq> JStr kraj) \<longrightarrow>
           dest_root @ abb @ ascii ''.csv'' \<notin> fst ` set ws))"
proof -
  have cols: "columns df0 = map fst t"
    using assms(1) by (auto simp: DataFrame_def Let_def split: if_splits)
  with index_of_member [OF assms(2)] obtain i where i: "index_of (columns df0) Kraj = Some i"
    by auto
  define df where "df = df0\<lparr>rows := foldr (insert_row le i) (rows df0) []\<rparr>"
  define ws where "ws = map (\<lambda>(kraj, abb).
             (dest_root @ abb @ ascii ''.csv'',
              df\<lparr>rows := filter (\<lambda>r. r ! i = JStr kraj) (rows df)\<rparr>))
        (filter (\<lambda>(kraj, abb). \<exists>r\<in>set (rows df). r ! i = JStr kraj) name_to_abb)"
  have "save_kraje le t = Inr (df, [(dest_root @ ascii ''kraje.csv'', df)])"
    by (simp add: save_kraje_def assms(1) sort_values_def i df_def and_then_def)
  moreover have "mset (rows df) = mset (rows df0)"
    by (simp add: df_def mset_sorted_rows)
  moreover have i': "index_of (columns df) Kraj = Some i"
    by (simp add: df_def i)
  moreover have "save_individual df name_to_abb = (None, ws)"
    unfolding ws_def by (rule save_individual_files [OF i'])
  moreover note region_files_general [OF name_to_abb_keys name_to_abb_codes ws_def]
  ultimately show ?thesis by blast
qed


theorem region_files_witness:
  "\<exists>df ws.
     save_kraje cell_le two_rows = Inr (df, [(dest_root @ ascii ''kraje.csv'', df)]) \<and>
     size (mset (rows df)) = 2 \<and>
     save_individual df name_to_abb = (None, ws) \<and>
     distinct (map fst ws)"
proof -
  have "\<exists>df0. DataFrame two_rows = Inr df0 \<and> length (rows df0) = 2"
    by (simp add: DataFrame_def two_rows_def res_def)
  then obtain df0 where df0: "DataFrame two_rows = Inr df0" and n: "length (rows df0) = 2"
    by blast
  have kraj: "Kraj \<in> set (map fst two_rows)"
    by (simp add: two_rows_def res_def)
  from region_files [OF df0 kraj, of cell_le]
  obtain df ws where "save_kraje cell_le two_rows = Inr (df, [(dest_root @ ascii ''kraje.csv'', df)])"
    and "mset (rows df) = mset (rows df0)"
    and "save_individual df name_to_abb = (None, ws)"
    and "distinct (map fst ws)"
    by blast
  moreover from this(2) have "size (mset (rows df)) = 2"
    by (simp add: n)
  ultimately show ?thesis by blast
qed

end
